theory Spec2Isabelle
  imports Main
begin

section \<open>Data model of \<^verbatim>\<open>scripts/quality-check.js\<close>\<close>

text \<open>
  The script keeps one process-wide accumulator \<^verbatim>\<open>ISSUES\<close>, an object with one array per
  severity key. Every check pushes plain objects \<^verbatim>\<open>{file, line, message, code}\<close> onto one of
  the arrays. Strings are lists of characters; the model reads a file's content as a
  sequence of code units, each an Isabelle \<^typ>\<open>char\<close> (exact for ASCII sources). The
  model follows the script with the four rule tables, for TypeScript and JavaScript, Python,
  HTML and SQL.
\<close>

datatype severity = Critical | High | Medium | Low | Info

record finding =
  file' :: string
  line :: nat
  message :: string
  code :: string

record issues =
  critical :: "finding list"
  high :: "finding list"
  medium :: "finding list"
  low :: "finding list"
  info :: "finding list"

definition ISSUES_init :: issues where
  "ISSUES_init = \<lparr>critical = [], high = [], medium = [], low = [], info = []\<rparr>"

text \<open>\<^verbatim>\<open>ISSUES[severity]\<close> and \<^verbatim>\<open>ISSUES[severity].push(f)\<close>.\<close>

fun bucket :: "issues \<Rightarrow> severity \<Rightarrow> finding list" where
  "bucket i Critical = critical i"
| "bucket i High = high i"
| "bucket i Medium = medium i"
| "bucket i Low = low i"
| "bucket i Info = info i"

fun push :: "severity \<Rightarrow> finding \<Rightarrow> issues \<Rightarrow> issues" where
  "push Critical f i = i\<lparr>critical := critical i @ [f]\<rparr>"
| "push High f i = i\<lparr>high := high i @ [f]\<rparr>"
| "push Medium f i = i\<lparr>medium := medium i @ [f]\<rparr>"
| "push Low f i = i\<lparr>low := low i @ [f]\<rparr>"
| "push Info f i = i\<lparr>info := info i @ [f]\<rparr>"

section \<open>String helpers of the JavaScript runtime\<close>

text \<open>Template-literal interpolation of a non-negative integer.\<close>

fun show_nat :: "nat \<Rightarrow> string" where
  "show_nat n = (if n < 10 then [''0123456789'' ! n]
                 else show_nat (n div 10) @ [''0123456789'' ! (n mod 10)])"

declare show_nat.simps [simp del]

text \<open>\<^verbatim>\<open>s.toUpperCase()\<close> and \<^verbatim>\<open>s.toLowerCase()\<close> on ASCII letters.\<close>

definition upper_letters :: string where
  "upper_letters = ''ABCDEFGHIJKLMNOPQRSTUVWXYZ''"

definition lower_letters :: string where
  "lower_letters = ''abcdefghijklmnopqrstuvwxyz''"

definition is_upper :: "char \<Rightarrow> bool" where
  "is_upper c = (c \<in> set upper_letters)"

definition is_lower :: "char \<Rightarrow> bool" where
  "is_lower c = (c \<in> set lower_letters)"

definition upper_char :: "char \<Rightarrow> char" where
  "upper_char c = (case map_of (zip lower_letters upper_letters) c of Some u \<Rightarrow> u | None \<Rightarrow> c)"

definition lower_char :: "char \<Rightarrow> char" where
  "lower_char c = (case map_of (zip upper_letters lower_letters) c of Some l \<Rightarrow> l | None \<Rightarrow> c)"

definition toUpperCase :: "string \<Rightarrow> string" where
  "toUpperCase s = map upper_char s"

definition toLowerCase :: "string \<Rightarrow> string" where
  "toLowerCase s = map lower_char s"

section \<open>The reporter: \<^verbatim>\<open>generateReport\<close>\<close>

text \<open>
  The report is the sequence of strings handed to \<^verbatim>\<open>console.log\<close> followed by the
  argument of \<^verbatim>\<open>process.exit\<close>. The icons in front of some lines are the UTF-8 bytes of
  the pictographs of the script.
\<close>

record report =
  printed :: "string list"
  exit_status :: nat

definition severity_key :: "severity \<Rightarrow> string" where
  "severity_key s = (case s of Critical \<Rightarrow> ''critical'' | High \<Rightarrow> ''high''
     | Medium \<Rightarrow> ''medium'' | Low \<Rightarrow> ''low'' | Info \<Rightarrow> ''info'')"

definition rule80 :: "char \<Rightarrow> string" where
  "rule80 c = replicate 80 c"

definition icon_report :: string where
  "icon_report = [CHR 0xF0, CHR 0x9F, CHR 0x94, CHR 0x8D]"
definition icon_critical :: string where
  "icon_critical = [CHR 0xF0, CHR 0x9F, CHR 0x94, CHR 0xB4]"
definition icon_high :: string where
  "icon_high = [CHR 0xF0, CHR 0x9F, CHR 0x9F, CHR 0xA0]"
definition icon_medium :: string where
  "icon_medium = [CHR 0xF0, CHR 0x9F, CHR 0x9F, CHR 0xA1]"
definition icon_low :: string where
  "icon_low = [CHR 0xF0, CHR 0x9F, CHR 0x94, CHR 0xB5]"
definition icon_info :: string where
  "icon_info = [CHR 0xE2, CHR 0x84, CHR 0xB9, CHR 0xEF, CHR 0xB8, CHR 0x8F]"
definition icon_failed :: string where
  "icon_failed = [CHR 0xE2, CHR 0x9D, CHR 0x8C]"
definition icon_warning :: string where
  "icon_warning = [CHR 0xE2, CHR 0x9A, CHR 0xA0, CHR 0xEF, CHR 0xB8, CHR 0x8F]"
definition icon_passed :: string where
  "icon_passed = [CHR 0xE2, CHR 0x9C, CHR 0x85]"

text \<open>The counts block printed first.\<close>

definition report_header :: "string \<Rightarrow> issues \<Rightarrow> string list" where
  "report_header projectRoot i =
    (let totalIssues = length (critical i @ high i @ medium i @ low i @ info i);
         criticalCount = length (critical i);
         highCount = length (high i);
         mediumCount = length (medium i);
         lowCount = length (low i)
     in [ [CHR 0x0A] @ rule80 CHR ''='',
          icon_report @ '' CODE QUALITY CHECK REPORT'',
          rule80 CHR ''='',
          [CHR 0x0A] @ ''Project: '' @ projectRoot,
          ''Total Issues Found: '' @ show_nat totalIssues,
          ''  '' @ icon_critical @ '' Critical: '' @ show_nat criticalCount,
          ''  '' @ icon_high @ '' High: '' @ show_nat highCount,
          ''  '' @ icon_medium @ '' Medium: '' @ show_nat mediumCount,
          ''  '' @ icon_low @ '' Low: '' @ show_nat lowCount,
          ''  '' @ icon_info @ ''  Info: '' @ show_nat (length (info i)) ])"

text \<open>
  One issue of a bucket: \<^verbatim>\<open>index\<close> is the position in the bucket; the excerpt line is
  printed only for a truthy (non-empty) \<^verbatim>\<open>issue.code\<close>.
\<close>

definition print_issue :: "nat \<Rightarrow> finding \<Rightarrow> string list" where
  "print_issue index issue =
     [ [CHR 0x0A] @ show_nat (index + 1) @ ''. '' @ file' issue @ '':'' @ show_nat (line issue),
       ''   '' @ message issue ]
     @ (if code issue \<noteq> [] then [''   Code: '' @ code issue] else [])"

definition print_bucket :: "severity \<Rightarrow> finding list \<Rightarrow> string list" where
  "print_bucket s fs =
     (if length fs > 0
      then [ [CHR 0x0A] @ toUpperCase (severity_key s) @ '' ISSUES:'', rule80 CHR ''-'' ]
           @ concat (map (\<lambda>(index, issue). print_issue index issue) (enumerate 0 fs))
      else [])"

text \<open>\<^verbatim>\<open>['critical', 'high', 'medium', 'low'].forEach(severity => ...)\<close>\<close>

definition report_listing :: "issues \<Rightarrow> string list" where
  "report_listing i =
     concat (map (\<lambda>s. print_bucket s (bucket i s)) [Critical, High, Medium, Low])"

datatype verdict = Failed | PassedWithWarnings | Passed

definition report_verdict :: "issues \<Rightarrow> verdict" where
  "report_verdict i =
     (let criticalCount = length (critical i);
          highCount = length (high i);
          mediumCount = length (medium i);
          lowCount = length (low i)
      in if criticalCount > 0 \<or> highCount > 0 then Failed
         else if mediumCount > 0 \<or> lowCount > 0 then PassedWithWarnings
         else Passed)"

fun report_summary :: "verdict \<Rightarrow> string list \<times> nat" where
  "report_summary Failed =
     ([ icon_failed @ '' QUALITY CHECK FAILED'',
        ''   Please address critical and high-priority issues before proceeding.'' ], 1)"
| "report_summary PassedWithWarnings =
     ([ icon_warning @ ''  QUALITY CHECK PASSED WITH WARNINGS'',
        ''   Consider addressing medium and low-priority issues.'' ], 0)"
| "report_summary Passed =
     ([ icon_passed @ '' QUALITY CHECK PASSED'' ], 0)"

definition generateReport :: "string \<Rightarrow> issues \<Rightarrow> report" where
  "generateReport projectRoot i =
     (let (summary, status) = report_summary (report_verdict i)
      in \<lparr>printed = report_header projectRoot i @ report_listing i
                     @ [[CHR 0x0A] @ rule80 CHR ''=''] @ summary,
          exit_status = status\<rparr>)"

section \<open>More of the string runtime\<close>

text \<open>\<^verbatim>\<open>s.split(c)\<close> for a one-character separator: the empty string gives one empty piece.\<close>

fun split_acc :: "char \<Rightarrow> string \<Rightarrow> string \<Rightarrow> string list" where
  "split_acc c cur [] = [rev cur]"
| "split_acc c cur (x # xs) =
     (if x = c then rev cur # split_acc c [] xs else split_acc c (x # cur) xs)"

definition split :: "string \<Rightarrow> char \<Rightarrow> string list" where
  "split s c = split_acc c [] s"

text \<open>White space and line terminators of the language, within ASCII.\<close>

definition is_space :: "char \<Rightarrow> bool" where
  "is_space c = (c \<in> set [CHR 0x09, CHR 0x0A, CHR 0x0B, CHR 0x0C, CHR 0x0D, CHR '' ''])"

definition is_line_terminator :: "char \<Rightarrow> bool" where
  "is_line_terminator c = (c = CHR 0x0A \<or> c = CHR 0x0D)"

definition is_digit :: "char \<Rightarrow> bool" where
  "is_digit c = (c \<in> set ''0123456789'')"

definition is_word :: "char \<Rightarrow> bool" where
  "is_word c = (is_upper c \<or> is_lower c \<or> is_digit c \<or> c = CHR ''_'')"

definition trim :: "string \<Rightarrow> string" where
  "trim s = rev (dropWhile is_space (rev (dropWhile is_space s)))"

text \<open>\<^verbatim>\<open>s.substring(0, n)\<close>\<close>

definition substring0 :: "string \<Rightarrow> nat \<Rightarrow> string" where
  "substring0 s n = take n s"

fun startsWith :: "string \<Rightarrow> string \<Rightarrow> bool" where
  "startsWith s [] = True"
| "startsWith [] (p # ps) = False"
| "startsWith (x # xs) (p # ps) = (x = p \<and> startsWith xs ps)"

definition endsWith :: "string \<Rightarrow> string \<Rightarrow> bool" where
  "endsWith s p = startsWith (rev s) (rev p)"

fun includes_str :: "string \<Rightarrow> string \<Rightarrow> bool" where
  "includes_str [] sub = (sub = [])"
| "includes_str (x # xs) sub = (startsWith (x # xs) sub \<or> includes_str xs sub)"

text \<open>\<^verbatim>\<open>s.replace(pat, rep)\<close> with a string pattern: the first occurrence only.\<close>

fun replace_str :: "string \<Rightarrow> string \<Rightarrow> string \<Rightarrow> string" where
  "replace_str [] pat rep = (if pat = [] then rep else [])"
| "replace_str (x # xs) pat rep =
     (if startsWith (x # xs) pat then rep @ drop (length pat) (x # xs)
      else x # replace_str xs pat rep)"

text \<open>\<^verbatim>\<open>xs.join(sep)\<close>\<close>

fun join_with :: "string \<Rightarrow> string list \<Rightarrow> string" where
  "join_with sep [] = []"
| "join_with sep [x] = x"
| "join_with sep (x # y # ys) = x @ sep @ join_with sep (y # ys)"

text \<open>\<^verbatim>\<open>[...new Set(xs)]\<close>: the first occurrence of each element, in order.\<close>

fun unique :: "'a list \<Rightarrow> 'a list \<Rightarrow> 'a list" where
  "unique seen [] = []"
| "unique seen (x # xs) = (if x \<in> set seen then unique seen xs else x # unique (x # seen) xs)"

section \<open>Regular expressions\<close>

text \<open>
  The patterns of the script use literals, character classes, the greedy quantifiers
  \<^verbatim>\<open>*\<close>, \<^verbatim>\<open>+\<close>, \<^verbatim>\<open>?\<close>, alternation, capture groups, \<^verbatim>\<open>^\<close>, \<^verbatim>\<open>$\<close>, \<^verbatim>\<open>\b\<close> and negative
  lookahead. The matcher below is the backtracking matcher of the language definition: a
  pattern is run at a position with a continuation that stands for the rest of the pattern,
  alternatives are tried in order and the first success is the result.
\<close>

datatype cls = CChar char | CSpace | CWord | CDigit

datatype rx =
    Chr char
  | Str string
  | Dot
  | OneOf "cls list"
  | NoneOf "cls list"
  | Seq rx rx
  | Alt rx rx
  | Star rx
  | Plus rx
  | Opt rx
  | Group nat rx
  | NotAhead rx
  | Bol
  | Eol
  | WordB

text \<open>
  A matcher state: the characters before the position (nearest first), the characters
  from the position on, and the captures made so far (latest first).
\<close>

type_synonym mstate = "string \<times> string \<times> (nat \<times> string) list"

type_synonym cont = "mstate \<Rightarrow> mstate option"

text \<open>Case folding under the \<^verbatim>\<open>i\<close> flag.\<close>

definition canon :: "bool \<Rightarrow> char \<Rightarrow> char" where
  "canon ic c = (if ic then upper_char c else c)"

fun cls_has :: "bool \<Rightarrow> cls \<Rightarrow> char \<Rightarrow> bool" where
  "cls_has ic (CChar d) c = (canon ic c = canon ic d)"
| "cls_has ic CSpace c = is_space c"
| "cls_has ic CWord c = is_word c"
| "cls_has ic CDigit c = is_digit c"

text \<open>One character accepted by a predicate, then the rest of the pattern.\<close>

fun step_char :: "(char \<Rightarrow> bool) \<Rightarrow> mstate \<Rightarrow> cont \<Rightarrow> mstate option" where
  "step_char ok (p, [], c) k = None"
| "step_char ok (p, x # q, c) k = (if ok x then k (x # p, q, c) else None)"

fun step_str :: "bool \<Rightarrow> string \<Rightarrow> mstate \<Rightarrow> cont \<Rightarrow> mstate option" where
  "step_str ic [] st k = k st"
| "step_str ic (d # ds) (p, [], c) k = None"
| "step_str ic (d # ds) (p, x # q, c) k =
     (if canon ic x = canon ic d then step_str ic ds (x # p, q, c) k else None)"

text \<open>\<open>a\<close> if it succeeds, else \<open>b\<close>.\<close>

definition orelse :: "'a option \<Rightarrow> 'a option \<Rightarrow> 'a option" where
  "orelse a b = (case a of Some m \<Rightarrow> Some m | None \<Rightarrow> b)"

text \<open>
  Greedy repetition of a matcher \<open>f\<close>: one more iteration is tried before the continuation;
  an iteration that consumes nothing is not continued. The counter bounds the number of
  iterations by the number of characters left, which no run of consuming iterations exceeds.
\<close>

fun star_iter :: "nat \<Rightarrow> (mstate \<Rightarrow> cont \<Rightarrow> mstate option) \<Rightarrow> mstate \<Rightarrow> cont \<Rightarrow> mstate option" where
  "star_iter 0 f st k = k st"
| "star_iter (Suc n) f st k =
     orelse (f st (\<lambda>st'. if length (fst (snd st')) < length (fst (snd st))
                          then star_iter n f st' k else None))
            (k st)"

definition at_word_boundary :: "mstate \<Rightarrow> bool" where
  "at_word_boundary st =
     (case st of (p, q, c) \<Rightarrow>
        (case p of [] \<Rightarrow> False | a # _ \<Rightarrow> is_word a)
        \<noteq> (case q of [] \<Rightarrow> False | b # _ \<Rightarrow> is_word b))"

definition at_line_start :: "bool \<Rightarrow> mstate \<Rightarrow> bool" where
  "at_line_start ml st =
     (case st of (p, q, c) \<Rightarrow> (case p of [] \<Rightarrow> True | a # _ \<Rightarrow> ml \<and> is_line_terminator a))"

definition at_line_end :: "bool \<Rightarrow> mstate \<Rightarrow> bool" where
  "at_line_end ml st =
     (case st of (p, q, c) \<Rightarrow> (case q of [] \<Rightarrow> True | b # _ \<Rightarrow> ml \<and> is_line_terminator b))"

text \<open>The text consumed between an earlier state and a later one.\<close>

definition consumed :: "mstate \<Rightarrow> mstate \<Rightarrow> string" where
  "consumed st st' = rev (take (length (fst st') - length (fst st)) (fst st'))"

record flags =
  ignoreCase :: bool
  multiline :: bool

primrec rx_run :: "rx \<Rightarrow> flags \<Rightarrow> mstate \<Rightarrow> cont \<Rightarrow> mstate option" where
  "rx_run (Chr d) fl st k =
     step_char (\<lambda>x. canon (ignoreCase fl) x = canon (ignoreCase fl) d) st k"
| "rx_run (Str ds) fl st k = step_str (ignoreCase fl) ds st k"
| "rx_run Dot fl st k = step_char (\<lambda>x. \<not> is_line_terminator x) st k"
| "rx_run (OneOf cs) fl st k =
     step_char (\<lambda>x. list_ex (\<lambda>m. cls_has (ignoreCase fl) m x) cs) st k"
| "rx_run (NoneOf cs) fl st k =
     step_char (\<lambda>x. \<not> list_ex (\<lambda>m. cls_has (ignoreCase fl) m x) cs) st k"
| "rx_run (Seq a b) fl st k = rx_run a fl st (\<lambda>st'. rx_run b fl st' k)"
| "rx_run (Alt a b) fl st k = orelse (rx_run a fl st k) (rx_run b fl st k)"
| "rx_run (Star a) fl st k = star_iter (length (fst (snd st))) (rx_run a fl) st k"
| "rx_run (Plus a) fl st k =
     rx_run a fl st (\<lambda>st'. star_iter (length (fst (snd st'))) (rx_run a fl) st' k)"
| "rx_run (Opt a) fl st k = orelse (rx_run a fl st k) (k st)"
| "rx_run (Group n a) fl st k =
     rx_run a fl st (\<lambda>st'. case st' of (p', q', c') \<Rightarrow> k (p', q', (n, consumed st st') # c'))"
| "rx_run (NotAhead a) fl st k =
     (case rx_run a fl st Some of None \<Rightarrow> k st | Some m \<Rightarrow> None)"
| "rx_run Bol fl st k = (if at_line_start (multiline fl) st then k st else None)"
| "rx_run Eol fl st k = (if at_line_end (multiline fl) st then k st else None)"
| "rx_run WordB fl st k = (if at_word_boundary st then k st else None)"

text \<open>Sequences and alternations of more than two parts.\<close>

fun cat :: "rx list \<Rightarrow> rx" where
  "cat [] = Str []"
| "cat [r] = r"
| "cat (r # rs) = Seq r (cat rs)"

fun alts :: "rx list \<Rightarrow> rx" where
  "alts [] = NotAhead (Str [])"
| "alts [r] = r"
| "alts (r # rs) = Alt r (alts rs)"

text \<open>
  The leftmost match at or after the position: the position where it starts (as the
  characters before it) and the state at its end.
\<close>

fun rx_search :: "rx \<Rightarrow> flags \<Rightarrow> string \<Rightarrow> string \<Rightarrow> (string \<times> mstate) option" where
  "rx_search r fl p [] =
     (case rx_run r fl (p, [], []) Some of None \<Rightarrow> None | Some m \<Rightarrow> Some (p, m))"
| "rx_search r fl p (x # q) =
     (case rx_run r fl (p, x # q, []) Some of
        None \<Rightarrow> rx_search r fl (x # p) q
      | Some m \<Rightarrow> Some (p, m))"

text \<open>
  A regular-expression object: the pattern, its flags and the mutable \<^verbatim>\<open>lastIndex\<close>.
  A match result: \<^verbatim>\<open>match.index\<close>, \<^verbatim>\<open>match[0]\<close> and the numbered captures.
\<close>

record regex =
  source :: rx
  global :: bool
  rflags :: flags
  lastIndex :: nat

record rmatch =
  index :: nat
  matched :: string
  captures :: "(nat \<times> string) list"

definition capture :: "rmatch \<Rightarrow> nat \<Rightarrow> string" where
  "capture m n = (case map_of (captures m) n of Some s \<Rightarrow> s | None \<Rightarrow> [])"

text \<open>
  \<^verbatim>\<open>re.exec(s)\<close>. A global expression starts at its \<^verbatim>\<open>lastIndex\<close> and stores the end of
  the match there; when nothing matches, or \<^verbatim>\<open>lastIndex\<close> is beyond the string, it stores 0.
  An expression without the \<^verbatim>\<open>g\<close> flag starts at 0 and leaves \<^verbatim>\<open>lastIndex\<close> alone.
\<close>

definition exec :: "regex \<Rightarrow> string \<Rightarrow> rmatch option \<times> regex" where
  "exec re s =
     (let start = (if global re then lastIndex re else 0)
      in if start > length s
         then (None, if global re then re\<lparr>lastIndex := 0\<rparr> else re)
         else (case rx_search (source re) (rflags re) (rev (take start s)) (drop start s) of
                 None \<Rightarrow> (None, if global re then re\<lparr>lastIndex := 0\<rparr> else re)
               | Some (p0, (p', q', c')) \<Rightarrow>
                   (Some \<lparr>index = length p0,
                          matched = rev (take (length p' - length p0) p'),
                          captures = c'\<rparr>,
                    if global re then re\<lparr>lastIndex := length p'\<rparr> else re)))"

text \<open>\<^verbatim>\<open>re.test(s)\<close>\<close>

definition test :: "regex \<Rightarrow> string \<Rightarrow> bool \<times> regex" where
  "test re s = (case exec re s of (None, re') \<Rightarrow> (False, re') | (Some m, re') \<Rightarrow> (True, re'))"

text \<open>Regular-expression literals: \<^verbatim>\<open>/r/\<close>, \<^verbatim>\<open>/r/g\<close>, \<^verbatim>\<open>/r/i\<close>, \<^verbatim>\<open>/r/gi\<close>, \<^verbatim>\<open>/r/gm\<close>.\<close>

definition re_plain :: "rx \<Rightarrow> regex" where
  "re_plain r = \<lparr>source = r, global = False,
                 rflags = \<lparr>ignoreCase = False, multiline = False\<rparr>, lastIndex = 0\<rparr>"

definition re_g :: "rx \<Rightarrow> regex" where
  "re_g r = \<lparr>source = r, global = True,
             rflags = \<lparr>ignoreCase = False, multiline = False\<rparr>, lastIndex = 0\<rparr>"

definition re_i :: "rx \<Rightarrow> regex" where
  "re_i r = \<lparr>source = r, global = False,
             rflags = \<lparr>ignoreCase = True, multiline = False\<rparr>, lastIndex = 0\<rparr>"

definition re_gi :: "rx \<Rightarrow> regex" where
  "re_gi r = \<lparr>source = r, global = True,
              rflags = \<lparr>ignoreCase = True, multiline = False\<rparr>, lastIndex = 0\<rparr>"

definition re_gm :: "rx \<Rightarrow> regex" where
  "re_gm r = \<lparr>source = r, global = True,
              rflags = \<lparr>ignoreCase = False, multiline = True\<rparr>, lastIndex = 0\<rparr>"

text \<open>
  \<^verbatim>\<open>s.replace(re, rep)\<close> with an expression without the \<^verbatim>\<open>g\<close> flag: the first match only.
\<close>

definition replace_re :: "string \<Rightarrow> regex \<Rightarrow> string \<Rightarrow> string" where
  "replace_re s re rep =
     (case fst (exec re s) of
        None \<Rightarrow> s
      | Some m \<Rightarrow> take (index m) s @ rep @ drop (index m + length (matched m)) s)"

text \<open>
  \<^verbatim>\<open>s.match(re)\<close> with a global expression: all matches, found by repeated \<^verbatim>\<open>exec\<close> from
  \<^verbatim>\<open>lastIndex\<close> 0; after an empty match \<^verbatim>\<open>lastIndex\<close> is advanced by one. Every round moves
  \<^verbatim>\<open>lastIndex\<close> forward, so \<open>length s + 2\<close> rounds reach the failing \<^verbatim>\<open>exec\<close> that ends
  the search. The result \<^verbatim>\<open>null\<close> for no match is the empty list, as \<^verbatim>\<open>|| []\<close> makes it.
\<close>

fun match_rounds :: "nat \<Rightarrow> regex \<Rightarrow> string \<Rightarrow> string list" where
  "match_rounds 0 re s = []"
| "match_rounds (Suc n) re s =
     (case exec re s of
        (None, re') \<Rightarrow> []
      | (Some m, re') \<Rightarrow>
          matched m # match_rounds n
            (if matched m = [] then re'\<lparr>lastIndex := lastIndex re' + 1\<rparr> else re') s)"

definition match_all :: "string \<Rightarrow> regex \<Rightarrow> string list" where
  "match_all s re = match_rounds (length s + 2) (re\<lparr>lastIndex := 0\<rparr>) s"

text \<open>
  \<^verbatim>\<open>while ((match = re.exec(content)) !== null) { body }\<close> with the loop body as a state
  transformer. An expression that matches the empty string at its \<^verbatim>\<open>lastIndex\<close> makes
  this loop run forever; not returning is the value \<open>None\<close>.
\<close>

partial_function (option) while_exec ::
  "regex \<Rightarrow> string \<Rightarrow> (rmatch \<Rightarrow> 'a \<Rightarrow> 'a) \<Rightarrow> 'a \<Rightarrow> 'a option" where
  "while_exec re content body acc =
     (case exec re content of
        (None, re') \<Rightarrow> Some acc
      | (Some m, re') \<Rightarrow> while_exec re' content body (body m acc))"

section \<open>Paths and the file system\<close>

text \<open>
  \<^verbatim>\<open>path.extname\<close>: from the last dot of the last path segment, and empty when the segment
  has no dot, starts with its only dot, or is \<^verbatim>\<open>..\<close>.
\<close>

definition last_segment :: "string \<Rightarrow> string" where
  "last_segment p =
     rev (takeWhile (\<lambda>c. c \<noteq> CHR ''/'') (dropWhile (\<lambda>c. c = CHR ''/'') (rev p)))"

definition extname :: "string \<Rightarrow> string" where
  "extname p =
     (let b = last_segment p;
          k = length b - length (takeWhile (\<lambda>c. c \<noteq> CHR ''.'') (rev b)) - 1
      in if CHR ''.'' \<notin> set b \<or> k = 0 \<or> b = ''..'' then [] else drop k b)"

text \<open>
  \<^verbatim>\<open>path.join(dir, name)\<close> for a normalised directory path and a plain entry name.
\<close>

definition join :: "string \<Rightarrow> string \<Rightarrow> string" where
  "join dir name = (if endsWith dir ''/'' then dir @ name else dir @ ''/'' @ name)"

text \<open>
  The file system under the project root is a tree, the same throughout a run. A node is
  a regular file with its content (\<open>None\<close> when reading it fails), a directory with its
  entries in listing order, a directory that cannot be listed, or a name that a listing
  gives but that \<^verbatim>\<open>statSync\<close> does not find (a dangling link, an entry removed since).
\<close>

datatype fsnode =
    RegularFile "string option"
  | Directory "(string \<times> fsnode) list"
  | Unlistable
  | Vanished

text \<open>
  The errors of the run: of \<^verbatim>\<open>readFileSync\<close> (\<open>ENOENT\<close>, \<open>EACCES\<close>, \<open>EISDIR\<close>), of
  \<^verbatim>\<open>readdirSync\<close> (\<open>ENOTDIR\<close>, \<open>EACCES_scandir\<close>), of \<^verbatim>\<open>statSync\<close> (\<open>ENOENT_stat\<close>), of a
  property read and of \<^verbatim>\<open>JSON.parse\<close>.
\<close>

datatype error =
    ENOENT string
  | EACCES string
  | ENOTDIR string
  | EISDIR string
  | EACCES_scandir string
  | ENOENT_stat string
  | TypeError string
  | SyntaxError string

text \<open>\<^verbatim>\<open>error.message\<close>\<close>

fun error_message :: "error \<Rightarrow> string" where
  "error_message (ENOENT p) = ''ENOENT: no such file or directory, open '' @ [CHR 0x27] @ p @ [CHR 0x27]"
| "error_message (EACCES p) = ''EACCES: permission denied, open '' @ [CHR 0x27] @ p @ [CHR 0x27]"
| "error_message (ENOTDIR p) = ''ENOTDIR: not a directory, scandir '' @ [CHR 0x27] @ p @ [CHR 0x27]"
| "error_message (EISDIR p) = ''EISDIR: illegal operation on a directory, read''"
| "error_message (EACCES_scandir p) = ''EACCES: permission denied, scandir '' @ [CHR 0x27] @ p @ [CHR 0x27]"
| "error_message (ENOENT_stat p) = ''ENOENT: no such file or directory, stat '' @ [CHR 0x27] @ p @ [CHR 0x27]"
| "error_message (TypeError m) = m"
| "error_message (SyntaxError m) = m"

text \<open>
  What a call may do: return a value, throw, or never return.
\<close>

datatype 'a outcome = Returns 'a | Throws error | Diverges

text \<open>
  Values of \<^verbatim>\<open>JSON.parse\<close>. Of a number only being zero is observed.
\<close>

datatype json =
    JNull
  | JBool bool
  | JNum int
  | JStr string
  | JArr "json list"
  | JObj "(string \<times> json) list"

text \<open>
  The surroundings of a run: the resolved \<^verbatim>\<open>projectRoot\<close>, the tree found there (\<open>None\<close>
  when the path does not exist) and \<^verbatim>\<open>JSON.parse\<close>, which either fails with the message
  of its \<^verbatim>\<open>SyntaxError\<close> or returns a value.
\<close>

record env =
  projectRoot :: string
  root_node :: "fsnode option"
  JSON_parse :: "string \<Rightarrow> string + json"

fun fs_lookup :: "fsnode \<Rightarrow> string list \<Rightarrow> fsnode option"
  and fs_lookup_in :: "(string \<times> fsnode) list \<Rightarrow> string \<Rightarrow> string list \<Rightarrow> fsnode option" where
  "fs_lookup n [] = Some n"
| "fs_lookup (RegularFile c) (s # ss) = None"
| "fs_lookup (Directory es) (s # ss) = fs_lookup_in es s ss"
| "fs_lookup Unlistable (s # ss) = None"
| "fs_lookup Vanished (s # ss) = None"
| "fs_lookup_in [] s ss = None"
| "fs_lookup_in ((name, n) # es) s ss = (if name = s then fs_lookup n ss else fs_lookup_in es s ss)"

text \<open>The node at an absolute path at or below the project root.\<close>

definition node_at :: "env \<Rightarrow> string \<Rightarrow> fsnode option" where
  "node_at e path =
     (if path = projectRoot e then root_node e
      else if startsWith path (join (projectRoot e) [])
      then (case root_node e of
              None \<Rightarrow> None
            | Some n \<Rightarrow> fs_lookup n (split (drop (length (join (projectRoot e) [])) path) CHR ''/''))
      else None)"

text \<open>\<^verbatim>\<open>existsSync(path)\<close>: false also for a name whose target is not there.\<close>

definition existsSync :: "env \<Rightarrow> string \<Rightarrow> bool" where
  "existsSync e path = (node_at e path \<noteq> None \<and> node_at e path \<noteq> Some Vanished)"

text \<open>\<^verbatim>\<open>readFileSync(path, 'utf-8')\<close>\<close>

definition readFileSync :: "env \<Rightarrow> string \<Rightarrow> error + string" where
  "readFileSync e path =
     (case node_at e path of
        None \<Rightarrow> Inl (ENOENT path)
      | Some Vanished \<Rightarrow> Inl (ENOENT path)
      | Some (Directory es) \<Rightarrow> Inl (EISDIR path)
      | Some Unlistable \<Rightarrow> Inl (EISDIR path)
      | Some (RegularFile None) \<Rightarrow> Inl (EACCES path)
      | Some (RegularFile (Some content)) \<Rightarrow> Inr content)"

section \<open>Configuration and the file discoverer\<close>

definition MAX_FILE_SIZE :: nat where
  "MAX_FILE_SIZE = 500"

definition MAX_COMPONENT_SIZE :: nat where
  "MAX_COMPONENT_SIZE = 300"

definition SUPPORTED_EXTENSIONS :: "string list" where
  "SUPPORTED_EXTENSIONS = [''.ts'', ''.tsx'', ''.js'', ''.jsx'', ''.py'', ''.html'', ''.htm'', ''.sql'']"

definition skipped_directories :: "string list" where
  "skipped_directories = [''node_modules'', ''dist'', ''build'', ''.git'', ''scripts'', ''.next'',
     ''.nuxt'', ''coverage'', ''.vscode'', ''.idea'']"

text \<open>
  \<^verbatim>\<open>getAllFiles(dir, fileList)\<close>, with the node found at \<open>dir\<close>. A path that does not exist
  gives back the list unchanged, by the \<^verbatim>\<open>existsSync\<close> test at the top. After it nothing is
  guarded: \<^verbatim>\<open>readdirSync\<close> throws for a path that is not a directory or cannot be listed,
  and \<^verbatim>\<open>statSync\<close> throws for an entry that is not there. \<open>getAllFiles_each\<close> is the
  \<^verbatim>\<open>files.forEach\<close> over the entries.
\<close>

fun getAllFiles :: "string \<Rightarrow> fsnode option \<Rightarrow> string list \<Rightarrow> error + string list"
  and getAllFiles_each :: "string \<Rightarrow> (string \<times> fsnode) list \<Rightarrow> string list \<Rightarrow> error + string list" where
  "getAllFiles dir None fileList = Inr fileList"
| "getAllFiles dir (Some Vanished) fileList = Inr fileList"
| "getAllFiles dir (Some (RegularFile c)) fileList = Inl (ENOTDIR dir)"
| "getAllFiles dir (Some Unlistable) fileList = Inl (EACCES_scandir dir)"
| "getAllFiles dir (Some (Directory files)) fileList = getAllFiles_each dir files fileList"
| "getAllFiles_each dir [] fileList = Inr fileList"
| "getAllFiles_each dir ((file, Vanished) # rest) fileList = Inl (ENOENT_stat (join dir file))"
| "getAllFiles_each dir ((file, RegularFile c) # rest) fileList =
     (if extname file \<in> set SUPPORTED_EXTENSIONS
      then getAllFiles_each dir rest (fileList @ [join dir file])
      else getAllFiles_each dir rest fileList)"
| "getAllFiles_each dir ((file, Unlistable) # rest) fileList =
     (if file \<notin> set skipped_directories
      then (case getAllFiles (join dir file) (Some Unlistable) fileList of
              Inl err \<Rightarrow> Inl err
            | Inr fileList' \<Rightarrow> getAllFiles_each dir rest fileList')
      else getAllFiles_each dir rest fileList)"
| "getAllFiles_each dir ((file, Directory sub) # rest) fileList =
     (if file \<notin> set skipped_directories
      then (case getAllFiles (join dir file) (Some (Directory sub)) fileList of
              Inl err \<Rightarrow> Inl err
            | Inr fileList' \<Rightarrow> getAllFiles_each dir rest fileList')
      else getAllFiles_each dir rest fileList)"

text \<open>\<^verbatim>\<open>countLines\<close> (defined by the script, called nowhere).\<close>

definition countLines :: "env \<Rightarrow> string \<Rightarrow> nat" where
  "countLines e filePath =
     (case readFileSync e filePath of
        Inr content \<Rightarrow> length (split content CHR 0x0A)
      | Inl err \<Rightarrow> 0)"

definition getFileExtension :: "string \<Rightarrow> string" where
  "getFileExtension filePath = toLowerCase (extname filePath)"

declare while_exec.simps [code]

section \<open>The rule tables\<close>

text \<open>
  A rule is \<^verbatim>\<open>{pattern, severity, message}\<close>. The patterns are expression objects created
  once, when the script is loaded, all with the \<^verbatim>\<open>g\<close> flag: their \<^verbatim>\<open>lastIndex\<close> lives as
  long as the run, so the tables are part of the state of the run next to \<^verbatim>\<open>ISSUES\<close>.
\<close>

record rule =
  pattern :: regex
  severity :: severity
  rmessage :: string

record state =
  ISSUES :: issues
  TS_JS_PATTERNS :: "rule list"
  PYTHON_PATTERNS :: "rule list"
  HTML_PATTERNS :: "rule list"
  SQL_PATTERNS :: "rule list"

text \<open>Pieces that many patterns share: \<^verbatim>\<open>\s\<close>, \<^verbatim>\<open>\w\<close>, \<^verbatim>\<open>\d\<close>, \<^verbatim>\<open>['"]\<close>, \<^verbatim>\<open>[^'"]\<close>.\<close>

definition sp :: rx where
  "sp = OneOf [CSpace]"

definition wd :: rx where
  "wd = OneOf [CWord]"

definition dg :: rx where
  "dg = OneOf [CDigit]"

definition quote :: rx where
  "quote = OneOf [CChar (CHR 0x27), CChar (CHR 0x22)]"

definition not_quote :: rx where
  "not_quote = NoneOf [CChar (CHR 0x27), CChar (CHR 0x22)]"

definition not_chr :: "char \<Rightarrow> rx" where
  "not_chr c = NoneOf [CChar c]"

text \<open>\<^verbatim>\<open>/TODO|FIXME|HACK|XXX/g\<close>, the last rule of every table.\<close>

definition todo_rule :: rule where
  "todo_rule = \<lparr>pattern = re_g (alts [Str ''TODO'', Str ''FIXME'', Str ''HACK'', Str ''XXX'']),
      severity = Low, rmessage = ''TODO/FIXME comment found''\<rparr>"

definition TS_JS_PATTERNS_init :: "rule list" where
  "TS_JS_PATTERNS_init =
   [ \<lparr>pattern = re_g (Str ''dangerouslySetInnerHTML''), severity = Critical,
      rmessage = ''XSS vulnerability: dangerouslySetInnerHTML without sanitization''\<rparr>,
     \<lparr>pattern = re_g (cat [Chr CHR '':'', Star sp, Str ''any'',
          Group 1 (alts [Chr CHR ''['', sp, Chr CHR '';'', Chr CHR '')''])]),
      severity = High, rmessage = ''Type safety issue: any type used''\<rparr>,
     \<lparr>pattern = re_g (Str ''console.log(''), severity = Medium,
      rmessage = ''console.log found (use proper logging)''\<rparr>,
     todo_rule ]"

definition PYTHON_PATTERNS_init :: "rule list" where
  "PYTHON_PATTERNS_init =
   [ \<lparr>pattern = re_g (cat [WordB, Str ''eval'', Star sp, Chr CHR ''(''] ), severity = Critical,
      rmessage = ''Security risk: eval() can execute arbitrary code''\<rparr>,
     \<lparr>pattern = re_g (cat [WordB, Str ''exec'', Star sp, Chr CHR ''(''] ), severity = Critical,
      rmessage = ''Security risk: exec() can execute arbitrary code''\<rparr>,
     \<lparr>pattern = re_g (cat [WordB, Str ''pickle.load'', Opt (Chr CHR ''s''), Star sp, Chr CHR ''(''] ),
      severity = Critical,
      rmessage = ''Security risk: pickle.load() can execute arbitrary code. Use json or validate input''\<rparr>,
     \<lparr>pattern = re_g (cat [WordB, Str ''print'', Star sp, Chr CHR ''(''] ), severity = Medium,
      rmessage = ''print() found (use logging module for production code)''\<rparr>,
     \<lparr>pattern = re_g (cat [WordB, Str ''Any'', WordB]), severity = High,
      rmessage = ''Type safety: Any type used (from typing). Prefer specific types''\<rparr>,
     todo_rule ]"

definition HTML_PATTERNS_init :: "rule list" where
  "HTML_PATTERNS_init =
   [ \<lparr>pattern = re_gi (cat [Str ''<script'', Star (not_chr CHR ''>''), Chr CHR ''>'',
          NotAhead (Seq (Star Dot) (Str ''nonce'')), NotAhead (Seq (Star Dot) (Str ''CSP'')),
          Star (not_chr CHR ''<''), Str ''</script>'']),
      severity = Critical,
      rmessage = ''Inline script without nonce/CSP protection (XSS risk)''\<rparr>,
     \<lparr>pattern = re_gi (cat [Str ''onclick'', Star sp, Chr CHR ''=''] ), severity = High,
      rmessage = ''Inline event handler (onclick) - XSS risk. Use addEventListener instead''\<rparr>,
     \<lparr>pattern = re_gi (alts [cat [Str ''onerror'', Star sp, Chr CHR ''=''],
          cat [Str ''onload'', Star sp, Chr CHR ''=''],
          cat [Str ''onmouseover'', Star sp, Chr CHR ''='']]),
      severity = High,
      rmessage = ''Inline event handler - XSS risk. Use addEventListener instead''\<rparr>,
     \<lparr>pattern = re_gi (cat [Str ''<img'', Star (not_chr CHR ''>''),
          NotAhead (Seq (Star Dot) (Str ''alt='')), Star (not_chr CHR ''>''), Chr CHR ''>'']),
      severity = Medium,
      rmessage = ''Image missing alt attribute (accessibility issue)''\<rparr>,
     \<lparr>pattern = re_gi (cat [Str ''<style'', Star (not_chr CHR ''>''), Chr CHR ''>'',
          NotAhead (Seq (Star Dot) (Str ''nonce'')), Star (not_chr CHR ''<''), Str ''</style>'']),
      severity = Medium,
      rmessage = ''Inline styles without nonce/CSP protection''\<rparr>,
     \<lparr>pattern = re_gi (Str ''javascript:''), severity = Critical,
      rmessage = ''javascript: protocol in href/src (XSS risk)''\<rparr>,
     todo_rule ]"

definition SQL_PATTERNS_init :: "rule list" where
  "SQL_PATTERNS_init =
   [ \<lparr>pattern = re_gi (cat [Str ''SELECT'', Plus sp, Star Dot, Plus sp, Str ''FROM'', Plus sp,
          Star Dot, Plus sp, Str ''WHERE'', Plus sp, Star Dot,
          quote, Star sp, Chr CHR ''+'', Star sp, quote]),
      severity = Critical,
      rmessage = ''SQL injection risk: String concatenation in WHERE clause. Use parameterized queries''\<rparr>,
     \<lparr>pattern = re_gi (cat [Str ''INSERT'', Plus sp, Str ''INTO'', Plus sp, Star Dot, Plus sp,
          Str ''VALUES'', Star sp, Chr CHR ''('', Star (not_chr CHR '')''),
          quote, Star sp, Chr CHR ''+'', Star sp, quote]),
      severity = Critical,
      rmessage = ''SQL injection risk: String concatenation in INSERT. Use parameterized queries''\<rparr>,
     \<lparr>pattern = re_gi (cat [Str ''UPDATE'', Plus sp, Star Dot, Plus sp, Str ''SET'', Plus sp,
          Star Dot, quote, Star sp, Chr CHR ''+'', Star sp, quote]),
      severity = Critical,
      rmessage = ''SQL injection risk: String concatenation in UPDATE. Use parameterized queries''\<rparr>,
     \<lparr>pattern = re_gi (cat [Str ''password'', Star sp, Chr CHR ''='', Star sp,
          quote, Plus not_quote, quote]),
      severity = Critical,
      rmessage = ''Hardcoded password found. Use environment variables or secure config''\<rparr>,
     \<lparr>pattern = re_gi (cat [alts [Str ''password'', Str ''pwd'', Str ''passwd''], Star sp,
          Chr CHR ''='', Star sp, quote, Plus not_quote, quote]),
      severity = Critical,
      rmessage = ''Hardcoded credentials found. Use environment variables''\<rparr>,
     \<lparr>pattern = re_gi (cat [Str ''SELECT'', Plus sp, Chr CHR ''*'', Plus sp, Str ''FROM'']),
      severity = Medium,
      rmessage = ''SELECT * found. Consider specifying columns explicitly''\<rparr>,
     todo_rule ]"

definition state_init :: state where
  "state_init = \<lparr>ISSUES = ISSUES_init, TS_JS_PATTERNS = TS_JS_PATTERNS_init,
     PYTHON_PATTERNS = PYTHON_PATTERNS_init, HTML_PATTERNS = HTML_PATTERNS_init,
     SQL_PATTERNS = SQL_PATTERNS_init\<rparr>"

text \<open>
  \<^verbatim>\<open>getPatternsForFile\<close> hands out one of the four tables, or a fresh empty array. The
  table is named here and read from (written back to) the state by the caller.
\<close>

datatype patterns_ref = TS_JS | PYTHON | HTML | SQL | NO_PATTERNS

definition getPatternsForFile :: "string \<Rightarrow> patterns_ref" where
  "getPatternsForFile filePath =
     (let ext = getFileExtension filePath
      in if ext \<in> set [''.ts'', ''.tsx'', ''.js'', ''.jsx''] then TS_JS
         else if ext = ''.py'' then PYTHON
         else if ext \<in> set [''.html'', ''.htm''] then HTML
         else if ext = ''.sql'' then SQL
         else NO_PATTERNS)"

fun table :: "state \<Rightarrow> patterns_ref \<Rightarrow> rule list" where
  "table s TS_JS = TS_JS_PATTERNS s"
| "table s PYTHON = PYTHON_PATTERNS s"
| "table s HTML = HTML_PATTERNS s"
| "table s SQL = SQL_PATTERNS s"
| "table s NO_PATTERNS = []"

fun set_table :: "patterns_ref \<Rightarrow> rule list \<Rightarrow> state \<Rightarrow> state" where
  "set_table TS_JS rs s = s\<lparr>TS_JS_PATTERNS := rs\<rparr>"
| "set_table PYTHON rs s = s\<lparr>PYTHON_PATTERNS := rs\<rparr>"
| "set_table HTML rs s = s\<lparr>HTML_PATTERNS := rs\<rparr>"
| "set_table SQL rs s = s\<lparr>SQL_PATTERNS := rs\<rparr>"
| "set_table NO_PATTERNS rs s = s"

section \<open>The rule engine: \<^verbatim>\<open>checkFile\<close>\<close>

text \<open>
  The inner loop \<^verbatim>\<open>patterns.forEach(({pattern, severity, message}) => ...)\<close> for one line:
  \<^verbatim>\<open>pattern.test(line)\<close> moves the rule's \<^verbatim>\<open>lastIndex\<close> and a success pushes a finding.
\<close>

fun patterns_forEach ::
  "string \<Rightarrow> string \<Rightarrow> nat \<Rightarrow> rule list \<Rightarrow> issues \<Rightarrow> rule list \<times> issues" where
  "patterns_forEach relativePath ln idx [] i = ([], i)"
| "patterns_forEach relativePath ln idx (r # rs) i =
     (case test (pattern r) ln of
        (hit, re') \<Rightarrow>
          (case patterns_forEach relativePath ln idx rs
                  (if hit
                   then push (severity r)
                          \<lparr>file' = relativePath, line = idx + 1, message = rmessage r,
                           code = substring0 (trim ln) 80\<rparr> i
                   else i) of
             (rs', i') \<Rightarrow> (r\<lparr>pattern := re'\<rparr> # rs', i')))"

text \<open>The outer loop \<^verbatim>\<open>lines.forEach((line, index) => ...)\<close>, from index \<open>idx\<close> on.\<close>

fun lines_forEach ::
  "string \<Rightarrow> nat \<Rightarrow> string list \<Rightarrow> rule list \<Rightarrow> issues \<Rightarrow> rule list \<times> issues" where
  "lines_forEach relativePath idx [] rs i = (rs, i)"
| "lines_forEach relativePath idx (ln # lns) rs i =
     (case patterns_forEach relativePath ln idx rs i of
        (rs', i') \<Rightarrow> lines_forEach relativePath (idx + 1) lns rs' i')"

subsection \<open>Python\<close>

text \<open>\<^verbatim>\<open>/^def\s+(\w+)\s*\(([^)]*)\)\s*:/\<close>\<close>

definition functionDefRegex :: regex where
  "functionDefRegex = re_plain (cat [Bol, Str ''def'', Plus sp, Group 1 (Plus wd), Star sp,
     Chr CHR ''('', Group 2 (Star (not_chr CHR '')'')), Chr CHR '')'', Star sp, Chr CHR '':''])"

definition python_def_check :: "string \<Rightarrow> string \<Rightarrow> nat \<Rightarrow> issues \<Rightarrow> issues" where
  "python_def_check relativePath ln idx i =
     (case fst (exec functionDefRegex ln) of
        None \<Rightarrow> i
      | Some m \<Rightarrow>
          (let params = capture m 2;
               hasParamTypeHints = fst (test (re_plain (cat [Chr CHR '':'', Star sp, Plus wd])) params);
               hasReturnTypeHint = includes_str ln ''->''
           in if hasParamTypeHints \<and> \<not> hasReturnTypeHint
              then push Medium
                     \<lparr>file' = relativePath, line = idx + 1,
                      message = ''Function '' @ [CHR 0x27] @ capture m 1 @ [CHR 0x27]
                        @ '' has parameter type hints but missing return type hint. Consider adding -> ReturnType'',
                      code = substring0 (trim ln) 80\<rparr> i
              else i))"

fun python_lines_forEach :: "string \<Rightarrow> nat \<Rightarrow> string list \<Rightarrow> issues \<Rightarrow> issues" where
  "python_lines_forEach relativePath idx [] i = i"
| "python_lines_forEach relativePath idx (ln # lns) i =
     python_lines_forEach relativePath (idx + 1) lns (python_def_check relativePath ln idx i)"

definition checkPythonFile :: "string \<Rightarrow> string \<Rightarrow> string list \<Rightarrow> issues \<Rightarrow> issues" where
  "checkPythonFile relativePath content lns i =
     (let i1 = python_lines_forEach relativePath 0 lns i;
          hasLogging = (includes_str content ''import logging'' \<or> includes_str content ''from logging'');
          hasPrint = includes_str content ''print(''
      in if hasPrint \<and> \<not> hasLogging
         then push Medium
                \<lparr>file' = relativePath, line = 1,
                 message = ''print() statements found but logging module not imported. Use logging.getLogger() instead'',
                 code = ''import logging''\<rparr> i1
         else i1)"

subsection \<open>HTML\<close>

text \<open>\<^verbatim>\<open>/<img[^>]*>/gi\<close> and the test \<^verbatim>\<open>/alt\s*=/i\<close> on each tag.\<close>

definition imgTagRegex :: regex where
  "imgTagRegex = re_gi (cat [Str ''<img'', Star (not_chr CHR ''>''), Chr CHR ''>''])"

definition img_body :: "string \<Rightarrow> string \<Rightarrow> rmatch \<Rightarrow> issues \<Rightarrow> issues" where
  "img_body relativePath content m i =
     (let imgTag = matched m
      in if \<not> fst (test (re_i (cat [Str ''alt'', Star sp, Chr CHR ''=''])) imgTag)
         then (let beforeMatch = take (index m) content;
                   lineNumber = length (split beforeMatch CHR 0x0A)
               in push Medium
                    \<lparr>file' = relativePath, line = lineNumber,
                     message = ''Image missing alt attribute (accessibility issue)'',
                     code = substring0 imgTag 80\<rparr> i)
         else i)"

text \<open>
  \<^verbatim>\<open>/<input[^>]*id\s*=\s*['"]([^'"]+)['"][^>]*>/gi\<close> and \<^verbatim>\<open>/<label[^>]*for\s*=\s*['"]([^'"]+)['"][^>]*>/gi\<close>,
  each followed on the matched tag by the attribute alone, \<^verbatim>\<open>/id\s*=\s*['"]([^'"]+)['"]/i\<close> or
  \<^verbatim>\<open>/for\s*=\s*['"]([^'"]+)['"]/i\<close>. The two \<^verbatim>\<open>Set\<close>s keep insertion order.
\<close>

definition attr_rx :: "string \<Rightarrow> rx" where
  "attr_rx name = cat [Str name, Star sp, Chr CHR ''='', Star sp, quote, Group 1 (Plus not_quote), quote]"

definition inputRegex :: regex where
  "inputRegex = re_gi (cat [Str ''<input'', Star (not_chr CHR ''>''), attr_rx ''id'',
     Star (not_chr CHR ''>''), Chr CHR ''>''])"

definition labelRegex :: regex where
  "labelRegex = re_gi (cat [Str ''<label'', Star (not_chr CHR ''>''), attr_rx ''for'',
     Star (not_chr CHR ''>''), Chr CHR ''>''])"

definition set_add :: "'a list \<Rightarrow> 'a \<Rightarrow> 'a list" where
  "set_add xs x = (if x \<in> set xs then xs else xs @ [x])"

definition attr_body :: "string \<Rightarrow> rmatch \<Rightarrow> string list \<Rightarrow> string list" where
  "attr_body name m ids =
     (case fst (exec (re_i (attr_rx name)) (matched m)) of
        None \<Rightarrow> ids
      | Some idMatch \<Rightarrow> set_add ids (capture idMatch 1))"

fun inputIds_forEach :: "string \<Rightarrow> string list \<Rightarrow> string list \<Rightarrow> issues \<Rightarrow> issues" where
  "inputIds_forEach relativePath labelFors [] i = i"
| "inputIds_forEach relativePath labelFors (ident # ids) i =
     inputIds_forEach relativePath labelFors ids
       (if ident \<notin> set labelFors
        then push Medium
               \<lparr>file' = relativePath, line = 1,
                message = ''Input with id='' @ [CHR 0x22] @ ident @ [CHR 0x22]
                  @ '' missing corresponding label (accessibility issue)'',
                code = ''<label for='' @ [CHR 0x22] @ ident @ [CHR 0x22] @ ''>...</label>''\<rparr> i
        else i)"

definition checkHTMLFile :: "string \<Rightarrow> string \<Rightarrow> string list \<Rightarrow> issues \<Rightarrow> issues option" where
  "checkHTMLFile relativePath content lns i =
     (let i1 = (if \<not> startsWith (toLowerCase (trim content)) ''<!doctype''
                then push Low
                       \<lparr>file' = relativePath, line = 1,
                        message = ''HTML file missing DOCTYPE declaration'',
                        code = ''<!DOCTYPE html>''\<rparr> i
                else i)
      in case while_exec imgTagRegex content (img_body relativePath content) i1 of
           None \<Rightarrow> None
         | Some i2 \<Rightarrow>
             (case while_exec inputRegex content (attr_body ''id'') [] of
                None \<Rightarrow> None
              | Some inputIds \<Rightarrow>
                  (case while_exec labelRegex content (attr_body ''for'') [] of
                     None \<Rightarrow> None
                   | Some labelFors \<Rightarrow> Some (inputIds_forEach relativePath labelFors inputIds i2))))"

subsection \<open>SQL\<close>

definition checkSQLFile :: "string \<Rightarrow> string \<Rightarrow> string list \<Rightarrow> issues \<Rightarrow> issues" where
  "checkSQLFile relativePath content lns i =
     (let hasParameterized = fst (test (re_plain (alts [
              Seq (OneOf [CChar CHR ''?'', CChar CHR ''$'']) (Plus dg),
              Seq (Chr CHR '':'') (Plus wd),
              Str ''%s'',
              cat [Str ''%('', Plus wd, Str '')s'']])) content);
          hasStringConcat = fst (test (re_plain (cat [quote, Star sp, Chr CHR ''+'', Star sp, quote])) content);
          i1 = (if hasStringConcat \<and> \<not> hasParameterized
                then push Critical
                       \<lparr>file' = relativePath, line = 1,
                        message = ''SQL file contains string concatenation but no parameterized queries detected. High SQL injection risk.'',
                        code = ''Use parameterized queries: ? placeholders, named parameters, or prepared statements''\<rparr> i
                else i);
          i2 = (if fst (test (re_gi (cat [Str ''DROP'', Plus sp, Group 1 (alts [Str ''TABLE'', Str ''DATABASE''])])) content)
                   \<and> \<not> fst (test (re_gi (cat [Str ''IF'', Plus sp, Str ''EXISTS''])) content)
                then push High
                       \<lparr>file' = relativePath, line = 1,
                        message = ''DROP statement without IF EXISTS clause. Consider adding safety checks.'',
                        code = ''DROP TABLE IF EXISTS ...''\<rparr> i1
                else i1);
          hasTransactions = fst (test (re_gi (alts [
              cat [Str ''BEGIN'', Plus sp, Str ''TRANSACTION''],
              cat [Str ''START'', Plus sp, Str ''TRANSACTION''],
              Str ''COMMIT'',
              Str ''ROLLBACK''])) content);
          hasMultipleStatements =
            (length (match_all content (re_gm (cat [Chr CHR '';'', Star sp, Eol]))) > 1)
      in if hasMultipleStatements \<and> \<not> hasTransactions
         then push Medium
                \<lparr>file' = relativePath, line = 1,
                 message = ''Multiple SQL statements found without explicit transaction handling'',
                 code = ''Wrap in BEGIN TRANSACTION ... COMMIT''\<rparr> i2
         else i2)"

subsection \<open>\<^verbatim>\<open>checkFile\<close>\<close>

text \<open>The two size checks.\<close>

definition size_checks :: "string \<Rightarrow> string \<Rightarrow> string list \<Rightarrow> issues \<Rightarrow> issues" where
  "size_checks filePath relativePath lns i =
     (let lineCount = length lns;
          i1 = (if lineCount > MAX_FILE_SIZE
                then push High
                       \<lparr>file' = relativePath, line = 1,
                        message = ''File is too large ('' @ show_nat lineCount
                          @ '' lines). Consider splitting. Max recommended: ''
                          @ show_nat MAX_FILE_SIZE @ '' lines'',
                        code = substring0 (lns ! 0) 50 @ ''...''\<rparr> i
                else i)
      in if endsWith filePath ''.tsx'' \<and> lineCount > MAX_COMPONENT_SIZE
         then push Medium
                \<lparr>file' = relativePath, line = 1,
                 message = ''Component is large ('' @ show_nat lineCount
                   @ '' lines). Consider extracting logic into custom hooks. Max recommended: ''
                   @ show_nat MAX_COMPONENT_SIZE @ '' lines'',
                 code = substring0 (lns ! 0) 50 @ ''...''\<rparr> i1
         else i1)"

text \<open>The language-specific additional checks.\<close>

definition language_checks :: "string \<Rightarrow> string \<Rightarrow> string \<Rightarrow> string list \<Rightarrow> issues \<Rightarrow> issues option" where
  "language_checks ext relativePath content lns i =
     (if ext = ''.py'' then Some (checkPythonFile relativePath content lns i)
      else if ext \<in> set [''.html'', ''.htm''] then checkHTMLFile relativePath content lns i
      else if ext = ''.sql'' then Some (checkSQLFile relativePath content lns i)
      else Some i)"

definition checkFile :: "env \<Rightarrow> state \<Rightarrow> string \<Rightarrow> state outcome" where
  "checkFile e s filePath =
     (let relativePath = replace_str filePath (projectRoot e @ ''/'') []
      in case readFileSync e filePath of
           Inl err \<Rightarrow> Throws err
         | Inr content \<Rightarrow>
             (let lns = split content CHR 0x0A;
                  ext = getFileExtension filePath;
                  i1 = size_checks filePath relativePath lns (ISSUES s);
                  patterns = getPatternsForFile filePath
              in case lines_forEach relativePath 0 lns (table s patterns) i1 of
                   (rs', i2) \<Rightarrow>
                     (case language_checks ext relativePath content lns i2 of
                        None \<Rightarrow> Diverges
                      | Some i3 \<Rightarrow> Returns (set_table patterns rs' s\<lparr>ISSUES := i3\<rparr>))))"

text \<open>\<^verbatim>\<open>files.forEach(checkFile)\<close>: the first throw ends the loop.\<close>

fun files_forEach :: "env \<Rightarrow> state \<Rightarrow> string list \<Rightarrow> state outcome" where
  "files_forEach e s [] = Returns s"
| "files_forEach e s (f # fs) =
     (case checkFile e s f of
        Returns s' \<Rightarrow> files_forEach e s' fs
      | Throws err \<Rightarrow> Throws err
      | Diverges \<Rightarrow> Diverges)"

section \<open>Cross-file analysers\<close>

text \<open>
  A \<^verbatim>\<open>Map\<close> keeps its keys in insertion order: an association list with one entry a key.
\<close>

definition map_has :: "('k \<times> 'v) list \<Rightarrow> 'k \<Rightarrow> bool" where
  "map_has m k = (k \<in> set (map fst m))"

definition map_get :: "('k \<times> 'v) list \<Rightarrow> 'k \<Rightarrow> 'v option" where
  "map_get m k = map_of m k"

definition map_set :: "('k \<times> 'v) list \<Rightarrow> 'k \<Rightarrow> 'v \<Rightarrow> ('k \<times> 'v) list" where
  "map_set m k v =
     (if map_has m k then map (\<lambda>(k', v'). if k' = k then (k', v) else (k', v')) m
      else m @ [(k, v)])"

subsection \<open>\<^verbatim>\<open>checkForDuplicates\<close>\<close>

definition is_service_file :: "string \<Rightarrow> bool" where
  "is_service_file f =
     (includes_str f ''Service.'' \<or> includes_str f ''service.''
      \<or> includes_str f ''_service.'' \<or> includes_str f ''_Service.'')"

text \<open>\<^verbatim>\<open>file.split('/').pop().replace(/\.(ts|tsx|js|jsx|py)$/, '').toLowerCase()\<close>\<close>

definition service_baseName :: "string \<Rightarrow> string" where
  "service_baseName f =
     toLowerCase (replace_re (last (split f CHR ''/''))
        (re_plain (cat [Chr CHR ''.'',
            Group 1 (alts [Str ''ts'', Str ''tsx'', Str ''js'', Str ''jsx'', Str ''py'']), Eol])) [])"

text \<open>
  One round of \<^verbatim>\<open>serviceFiles.forEach\<close>: make the group if the key is new, then push the
  file onto the group.
\<close>

definition serviceMap_add :: "(string \<times> string list) list \<Rightarrow> string \<Rightarrow> (string \<times> string list) list" where
  "serviceMap_add m f =
     (let baseName = service_baseName f;
          m1 = (if \<not> map_has m baseName then map_set m baseName [] else m)
      in case map_get m1 baseName of
           Some grp \<Rightarrow> map_set m1 baseName (grp @ [f])
         | None \<Rightarrow> m1)"

definition relative_to :: "string \<Rightarrow> string \<Rightarrow> string" where
  "relative_to root f = replace_str f (root @ ''/'') []"

text \<open>One round of \<^verbatim>\<open>serviceMap.forEach((files, baseName) => ...)\<close>.\<close>

definition duplicate_check :: "string \<Rightarrow> string list \<Rightarrow> issues \<Rightarrow> issues" where
  "duplicate_check root grp i =
     (if length grp > 1
      then (let uniqueFiles = unique [] (map (relative_to root) grp)
            in if length uniqueFiles > 1
               then push Critical
                      \<lparr>file' = ''services/'', line = 0,
                       message = ''Potential duplicate service files detected: ''
                                 @ join_with '', '' uniqueFiles,
                       code = ''Consider consolidating into a single service file''\<rparr> i
               else i)
      else i)"

definition duplicates_in :: "string \<Rightarrow> string list \<Rightarrow> issues \<Rightarrow> issues" where
  "duplicates_in root fileList i =
     (let serviceFiles = filter is_service_file fileList;
          serviceMap = foldl serviceMap_add [] serviceFiles
      in foldl (\<lambda>acc (baseName, grp). duplicate_check root grp acc) i serviceMap)"

definition checkForDuplicates :: "env \<Rightarrow> issues \<Rightarrow> error + issues" where
  "checkForDuplicates e i =
     (case getAllFiles (projectRoot e) (root_node e) [] of
        Inl err \<Rightarrow> Inl err
      | Inr fileList \<Rightarrow> Inr (duplicates_in (projectRoot e) fileList i))"

subsection \<open>\<^verbatim>\<open>checkForTests\<close>\<close>

definition is_test_file :: "string \<Rightarrow> bool" where
  "is_test_file f =
     (includes_str f ''.test.'' \<or> includes_str f ''.spec.''
      \<or> includes_str f ''__tests__'' \<or> includes_str f ''__test__'')"

definition checkForTests :: "env \<Rightarrow> issues \<Rightarrow> error + issues" where
  "checkForTests e i =
     (case getAllFiles (projectRoot e) (root_node e) [] of
        Inl err \<Rightarrow> Inl err
      | Inr fileList \<Rightarrow>
          (let testFiles = filter is_test_file fileList
           in Inr (if length testFiles = 0
                   then push High
                          \<lparr>file' = ''project'', line = 0,
                           message = ''No test files found. Consider adding tests for critical functionality.'',
                           code = ''Set up Vitest, Jest, or your preferred testing framework''\<rparr> i
                   else i)))"

subsection \<open>\<^verbatim>\<open>checkPackageJson\<close>\<close>

text \<open>
  Reading a property of a parsed value gives \<^verbatim>\<open>undefined\<close> (\<open>None\<close>) unless the value is an
  object with that key; the last of several equal keys counts. \<^verbatim>\<open>v?.name\<close> is
  \<^verbatim>\<open>undefined\<close> for \<^verbatim>\<open>undefined\<close> and \<^verbatim>\<open>null\<close>.
\<close>

fun get_prop :: "json \<Rightarrow> string \<Rightarrow> json option" where
  "get_prop (JObj kvs) name = map_of (rev kvs) name"
| "get_prop v name = None"

fun opt_chain :: "json option \<Rightarrow> string \<Rightarrow> json option" where
  "opt_chain None name = None"
| "opt_chain (Some JNull) name = None"
| "opt_chain (Some v) name = get_prop v name"

fun truthy :: "json option \<Rightarrow> bool" where
  "truthy None = False"
| "truthy (Some JNull) = False"
| "truthy (Some (JBool b)) = b"
| "truthy (Some (JNum n)) = (n \<noteq> 0)"
| "truthy (Some (JStr s)) = (s \<noteq> [])"
| "truthy (Some (JArr vs)) = True"
| "truthy (Some (JObj kvs)) = True"

text \<open>
  The body of the \<^verbatim>\<open>try\<close> block once the manifest is parsed. Reading
  \<^verbatim>\<open>packageJson.devDependencies\<close> of \<^verbatim>\<open>null\<close> throws before anything is pushed.
\<close>

definition manifest_checks :: "json \<Rightarrow> issues \<Rightarrow> error + issues" where
  "manifest_checks packageJson i =
     (if packageJson = JNull
      then Inl (TypeError (''Cannot read properties of null (reading '' @ [CHR 0x27]
                  @ ''devDependencies'' @ [CHR 0x27] @ '')''))
      else (let devDependencies = get_prop packageJson ''devDependencies'';
                i1 = (if \<not> truthy (opt_chain devDependencies ''eslint'')
                         \<and> \<not> truthy (opt_chain devDependencies ''@typescript-eslint/parser'')
                      then push Medium
                             \<lparr>file' = ''package.json'', line = 0,
                              message = ''ESLint not configured. Consider adding for code quality enforcement.'',
                              code = ''npm install -D eslint''\<rparr> i
                      else i);
                hasTestFramework =
                  (truthy (opt_chain devDependencies ''vitest'')
                   \<or> truthy (opt_chain devDependencies ''jest'')
                   \<or> truthy (opt_chain devDependencies ''@testing-library/react'')
                   \<or> truthy (opt_chain devDependencies ''mocha'')
                   \<or> truthy (opt_chain devDependencies ''ava''))
            in Inr (if \<not> hasTestFramework
                    then push High
                           \<lparr>file' = ''package.json'', line = 0,
                            message = ''No testing framework found. Add Vitest, Jest, or your preferred testing framework.'',
                            code = ''npm install -D vitest @testing-library/react''\<rparr> i1
                    else i1)))"

text \<open>The \<^verbatim>\<open>try\<close> block: read, parse, inspect.\<close>

definition manifest_try :: "env \<Rightarrow> string \<Rightarrow> issues \<Rightarrow> error + issues" where
  "manifest_try e packageJsonPath i =
     (case readFileSync e packageJsonPath of
        Inl err \<Rightarrow> Inl err
      | Inr text \<Rightarrow>
          (case JSON_parse e text of
             Inl msg \<Rightarrow> Inl (SyntaxError msg)
           | Inr packageJson \<Rightarrow> manifest_checks packageJson i))"

definition checkPackageJson :: "env \<Rightarrow> issues \<Rightarrow> issues" where
  "checkPackageJson e i =
     (let packageJsonPath = join (projectRoot e) ''package.json''
      in if \<not> existsSync e packageJsonPath
         then push Info
                \<lparr>file' = ''package.json'', line = 0,
                 message = ''No package.json found. This may not be a Node.js project.'',
                 code = []\<rparr> i
         else (case manifest_try e packageJsonPath i of
                 Inr i' \<Rightarrow> i'
               | Inl err \<Rightarrow>
                   push Critical
                     \<lparr>file' = ''package.json'', line = 0,
                      message = ''Could not read package.json'',
                      code = error_message err\<rparr> i))"

section \<open>Main execution\<close>

text \<open>
  The analysers in the order of the script: first the per-file checks, the duplicate
  detector and the test detector, then the manifest check, whose result is the store handed
  to the reporter. An exception that nothing catches ends the process there. The three
  progress lines that the script prints before the report are left out.
\<close>

definition checks_before_manifest :: "env \<Rightarrow> issues outcome" where
  "checks_before_manifest e =
     (case getAllFiles (projectRoot e) (root_node e) [] of
        Inl err \<Rightarrow> Throws err
      | Inr files \<Rightarrow>
          (case files_forEach e state_init files of
             Throws err \<Rightarrow> Throws err
           | Diverges \<Rightarrow> Diverges
           | Returns s \<Rightarrow>
               (case checkForDuplicates e (ISSUES s) of
                  Inl err \<Rightarrow> Throws err
                | Inr i1 \<Rightarrow>
                    (case checkForTests e i1 of
                       Inl err \<Rightarrow> Throws err
                     | Inr i2 \<Rightarrow> Returns i2))))"

definition run_checks :: "env \<Rightarrow> issues outcome" where
  "run_checks e =
     (case checks_before_manifest e of
        Returns i2 \<Rightarrow> Returns (checkPackageJson e i2)
      | Throws err \<Rightarrow> Throws err
      | Diverges \<Rightarrow> Diverges)"

definition main :: "env \<Rightarrow> report outcome" where
  "main e =
     (case run_checks e of
        Returns i \<Rightarrow> Returns (generateReport (projectRoot e) i)
      | Throws err \<Rightarrow> Throws err
      | Diverges \<Rightarrow> Diverges)"

section \<open>Notions used in the proofs\<close>

text \<open>A later state of the same string: the position has not moved backwards.\<close>

definition later :: "mstate \<Rightarrow> mstate \<Rightarrow> bool" where
  "later st st' = (rev (fst st') @ fst (snd st') = rev (fst st) @ fst (snd st)
                 \<and> length (fst (snd st')) \<le> length (fst (snd st)))"

text \<open>
  A store that has only been appended to, with findings that satisfy \<open>P\<close>: every bucket
  of \<open>i\<close> is a prefix of its bucket in \<open>i'\<close>.
\<close>

definition grows_by :: "(finding \<Rightarrow> bool) \<Rightarrow> issues \<Rightarrow> issues \<Rightarrow> bool" where
  "grows_by P i i' = (\<forall>s. \<exists>xs. bucket i' s = bucket i s @ xs \<and> list_all P xs)"

text \<open>The messages of the two size checks, and the findings of every other check.\<close>

definition size_message :: "string \<Rightarrow> bool" where
  "size_message m = (startsWith m ''File is too large ('' \<or> startsWith m ''Component is large ('')"

definition other_finding :: "finding \<Rightarrow> bool" where
  "other_finding f = (\<not> size_message (message f))"

text \<open>
  The rule tables of a state carry the messages they were created with; running the rules
  changes only the \<^verbatim>\<open>lastIndex\<close> of their patterns.
\<close>

definition rules_intact :: "state \<Rightarrow> bool" where
  "rules_intact s = (\<forall>ref. map rmessage (table s ref) = map rmessage (table state_init ref))"

text \<open>
  The groups of the duplicate detector in closed form: the base names in order of first
  occurrence, each with the files of that base name.
\<close>

definition firsts :: "'a list \<Rightarrow> 'a list" where
  "firsts xs = rev (remdups (rev xs))"

definition groups_of :: "string list \<Rightarrow> (string \<times> string list) list" where
  "groups_of fs = map (\<lambda>k. (k, filter (\<lambda>f. service_baseName f = k) fs)) (firsts (map service_baseName fs))"

section \<open>Example projects\<close>

text \<open>The value a call returned, if it returned.\<close>

definition returned :: "'a outcome \<Rightarrow> 'a option" where
  "returned out = (case out of Returns x \<Rightarrow> Some x | Throws err \<Rightarrow> None | Diverges \<Rightarrow> None)"

text \<open>A project with one SQL file of 500 comment lines, each ended by a newline.\<close>

definition lines500_env :: env where
  "lines500_env = \<lparr>projectRoot = ''/p'',
     root_node = Some (Directory [(''notes.sql'', RegularFile (Some (concat (replicate 500 (''-- '' @ [CHR 0x0A])))))]),
     JSON_parse = (\<lambda>t. Inl ''Unexpected end of JSON input'')\<rparr>"

text \<open>
  A project with one TypeScript file of 501 lines: a declaration of type \<^verbatim>\<open>any\<close> on line 1,
  then 500 empty lines.
\<close>

definition big_env :: env where
  "big_env = \<lparr>projectRoot = ''/p'',
     root_node = Some (Directory [(''big.ts'', RegularFile (Some (''x: any;'' @ replicate 500 (CHR 0x0A))))]),
     JSON_parse = (\<lambda>t. Inl ''Unexpected end of JSON input'')\<rparr>"

text \<open>
  A project with one component file of 501 lines: an export on line 1, then 500 empty
  lines.
\<close>

definition big_component_env :: env where
  "big_component_env = \<lparr>projectRoot = ''/p'',
     root_node = Some (Directory
       [(''Panel.tsx'', RegularFile (Some (''export default Panel;'' @ replicate 500 (CHR 0x0A))))]),
     JSON_parse = (\<lambda>t. Inl ''Unexpected end of JSON input'')\<rparr>"

text \<open>A project with one JavaScript file of two lines, a \<^verbatim>\<open>console.log\<close> call on each.\<close>

definition two_logs_env :: env where
  "two_logs_env = \<lparr>projectRoot = ''/p'',
     root_node = Some (Directory
       [(''app.js'', RegularFile (Some (''console.log(1)'' @ [CHR 0x0A] @ ''console.log(2)'')))]),
     JSON_parse = (\<lambda>t. Inl ''Unexpected end of JSON input'')\<rparr>"

text \<open>
  A project with one HTML file of two lines: an image tag with an \<^verbatim>\<open>alt\<close> attribute, then
  an image tag without.
\<close>

definition two_images_env :: env where
  "two_images_env = \<lparr>projectRoot = ''/p'',
     root_node = Some (Directory
       [(''index.html'', RegularFile (Some
           (''<img src='' @ [CHR 0x22] @ ''a.png'' @ [CHR 0x22] @ '' alt='' @ [CHR 0x22] @ ''A'' @ [CHR 0x22] @ ''>''
            @ [CHR 0x0A]
            @ ''<img src='' @ [CHR 0x22] @ ''b.png'' @ [CHR 0x22] @ ''>'')))]),
     JSON_parse = (\<lambda>t. Inl ''Unexpected end of JSON input'')\<rparr>"

text \<open>
  A project of three files, each with a \<^verbatim>\<open>console.log\<close> call, whose second file cannot be
  read.
\<close>

definition locked_env :: env where
  "locked_env = \<lparr>projectRoot = ''/p'',
     root_node = Some (Directory
       [(''app.js'', RegularFile (Some ''console.log(1)'')),
        (''locked.ts'', RegularFile None),
        (''util.js'', RegularFile (Some ''console.log(2)''))]),
     JSON_parse = (\<lambda>t. Inl ''Unexpected end of JSON input'')\<rparr>"

text \<open>A project root that does not exist.\<close>

definition missing_root_env :: env where
  "missing_root_env = \<lparr>projectRoot = ''/nowhere'', root_node = None,
     JSON_parse = (\<lambda>t. Inl ''Unexpected end of JSON input'')\<rparr>"

text \<open>
  A project with \<^verbatim>\<open>UserService.ts\<close> and \<^verbatim>\<open>userservice.js\<close> in two directories, a third
  service file with another base name, and a manifest that is not JSON.
\<close>

definition services_env :: env where
  "services_env = \<lparr>projectRoot = ''/p'',
     root_node = Some (Directory
       [(''api'', Directory [(''UserService.ts'', RegularFile (Some ''export {}'')),
                            (''OrderService.ts'', RegularFile (Some ''export {}''))]),
        (''legacy'', Directory [(''userservice.js'', RegularFile (Some ''module.exports = {}''))]),
        (''package.json'', RegularFile (Some ''{ ''))]),
     JSON_parse = (\<lambda>t. Inl ''Unexpected end of JSON input'')\<rparr>"

section \<open>Properties of the matcher\<close>

lemma later_refl: "later st st"
  by (simp add: later_def)

lemma later_trans: "later a b \<Longrightarrow> later b c \<Longrightarrow> later a c"
  by (simp add: later_def)

lemma step_char_ext:
  "step_char ok st k = Some m \<Longrightarrow> \<exists>st'. later st st' \<and> length (fst (snd st')) < length (fst (snd st)) \<and> k st' = Some m"
proof (cases st)
  case (fields p q c)
  assume h: "step_char ok st k = Some m"
  show ?thesis
  proof (cases q)
    case Nil
    with fields h show ?thesis by simp
  next
    case (Cons x q')
    with fields h have "k (x # p, q', c) = Some m"
      by (simp split: if_splits)
    moreover have "later st (x # p, q', c)"
      by (simp add: later_def fields Cons)
    ultimately show ?thesis
      using fields Cons by fastforce
  qed
qed

lemma step_str_ext:
  "step_str ic ds st k = Some m \<Longrightarrow>
   \<exists>st'. later st st' \<and> length (fst (snd st')) + length ds = length (fst (snd st)) \<and> k st' = Some m"
proof (induction ic ds st k rule: step_str.induct)
  case (1 ic st k)
  then show ?case by (intro exI[of _ st]) (simp add: later_refl)
next
  case (2 ic d ds p c k)
  then show ?case by simp
next
  case (3 ic d ds p x q c k)
  from 3(2) have eq: "canon ic x = canon ic d" and run: "step_str ic ds (x # p, q, c) k = Some m"
    by (simp_all split: if_splits)
  from 3(1)[OF eq run] obtain st' where
    st': "later (x # p, q, c) st'" "length (fst (snd st')) + length ds = length q" "k st' = Some m"
    by auto
  have "later (p, x # q, c) (x # p, q, c)" by (simp add: later_def)
  with st'(1) have "later (p, x # q, c) st'" by (rule later_trans[rotated])
  with st'(2,3) show ?case by (intro exI[of _ st']) simp
qed

lemma star_iter_ext:
  assumes f: "\<And>st k m. f st k = Some m \<Longrightarrow> \<exists>st'. later st st' \<and> k st' = Some m"
  shows "star_iter n f st k = Some m \<Longrightarrow> \<exists>st'. later st st' \<and> k st' = Some m"
proof (induction n arbitrary: st m)
  case 0
  then show ?case by (intro exI[of _ st]) (simp add: later_refl)
next
  case (Suc n)
  let ?k' = "\<lambda>st'. if length (fst (snd st')) < length (fst (snd st)) then star_iter n f st' k else None"
  from Suc.prems have "f st ?k' = Some m \<or> k st = Some m"
    by (simp add: orelse_def split: option.splits)
  then show ?case
  proof
    assume "f st ?k' = Some m"
    from f[OF this] obtain st1 where st1: "later st st1" "?k' st1 = Some m" by auto
    then have "star_iter n f st1 k = Some m" by (simp split: if_splits)
    from Suc.IH[OF this] obtain st2 where "later st1 st2" "k st2 = Some m" by auto
    with st1(1) show ?thesis using later_trans by blast
  next
    assume "k st = Some m"
    then show ?thesis by (intro exI[of _ st]) (simp add: later_refl)
  qed
qed

lemma rx_run_ext:
  "rx_run r fl st k = Some m \<Longrightarrow> \<exists>st'. later st st' \<and> k st' = Some m"
proof (induction r arbitrary: st k m)
  case (Chr d)
  then show ?case using step_char_ext by fastforce
next
  case (Str ds)
  then show ?case using step_str_ext by fastforce
next
  case Dot
  then show ?case using step_char_ext by fastforce
next
  case (OneOf cs)
  then show ?case using step_char_ext by fastforce
next
  case (NoneOf cs)
  then show ?case using step_char_ext by fastforce
next
  case (Seq a b)
  from Seq.prems have "rx_run a fl st (\<lambda>st'. rx_run b fl st' k) = Some m" by simp
  from Seq.IH(1)[OF this] obtain st1 where st1: "later st st1" "rx_run b fl st1 k = Some m" by auto
  from Seq.IH(2)[OF st1(2)] obtain st2 where "later st1 st2" "k st2 = Some m" by auto
  with st1(1) show ?case using later_trans by blast
next
  case (Alt a b)
  then have "rx_run a fl st k = Some m \<or> rx_run b fl st k = Some m"
    by (simp add: orelse_def split: option.splits)
  with Alt.IH show ?case by blast
next
  case (Star a)
  then have "star_iter (length (fst (snd st))) (rx_run a fl) st k = Some m" by simp
  then show ?case
    by (rule star_iter_ext[rotated]) (rule Star.IH)
next
  case (Plus a)
  let ?k' = "\<lambda>st'. star_iter (length (fst (snd st'))) (rx_run a fl) st' k"
  from Plus.prems have "rx_run a fl st ?k' = Some m" by simp
  from Plus.IH[OF this] obtain st1 where st1: "later st st1" "?k' st1 = Some m" by auto
  from st1(2) have "\<exists>st2. later st1 st2 \<and> k st2 = Some m"
    by (rule star_iter_ext[rotated]) (rule Plus.IH)
  with st1(1) show ?case using later_trans by blast
next
  case (Opt a)
  then have "rx_run a fl st k = Some m \<or> k st = Some m"
    by (simp add: orelse_def split: option.splits)
  with Opt.IH show ?case using later_refl by blast
next
  case (Group n a)
  let ?k' = "\<lambda>st'. case st' of (p', q', c') \<Rightarrow> k (p', q', (n, consumed st st') # c')"
  from Group.prems have "rx_run a fl st ?k' = Some m" by simp
  from Group.IH[OF this] obtain st1 where st1: "later st st1" "?k' st1 = Some m" by auto
  obtain p' q' c' where f: "st1 = (p', q', c')" by (cases st1)
  with st1 have "later st (p', q', (n, consumed st st1) # c')" "k (p', q', (n, consumed st st1) # c') = Some m"
    by (simp_all add: later_def)
  then show ?case by blast
next
  case (NotAhead a)
  then have "k st = Some m" by (simp split: option.splits)
  then show ?case using later_refl by blast
next
  case Bol
  then have "k st = Some m" by (simp split: if_splits)
  then show ?case using later_refl by blast
next
  case Eol
  then have "k st = Some m" by (simp split: if_splits)
  then show ?case using later_refl by blast
next
  case WordB
  then have "k st = Some m" by (simp split: if_splits)
  then show ?case using later_refl by blast
qed

section \<open>The loops of the script return\<close>

lemma rx_search_found:
  "rx_search r fl p q = Some (p0, m) \<Longrightarrow>
   \<exists>q0. rev p0 @ q0 = rev p @ q \<and> length p \<le> length p0 \<and> rx_run r fl (p0, q0, []) Some = Some m"
proof (induction q arbitrary: p)
  case Nil
  then show ?case by (auto split: option.splits)
next
  case (Cons x q)
  show ?case
  proof (cases "rx_run r fl (p, x # q, []) Some")
    case None
    with Cons.prems have "rx_search r fl (x # p) q = Some (p0, m)" by simp
    from Cons.IH[OF this] show ?thesis by auto
  next
    case (Some m')
    with Cons.prems show ?thesis by auto
  qed
qed

text \<open>A pattern that begins with a non-empty literal consumes at least one character.\<close>

lemma literal_head_progress:
  assumes "rx_run (Seq (Str (d # ds)) r) fl st Some = Some m"
  shows "rev (fst m) @ fst (snd m) = rev (fst st) @ fst (snd st) \<and> length (fst (snd m)) < length (fst (snd st))"
proof -
  from assms have "step_str (ignoreCase fl) (d # ds) st (\<lambda>st'. rx_run r fl st' Some) = Some m" by simp
  from step_str_ext[OF this] obtain st1 where
    st1: "later st st1" "length (fst (snd st1)) + length (d # ds) = length (fst (snd st))"
         "rx_run r fl st1 Some = Some m" by blast
  from rx_run_ext[OF st1(3)] obtain st2 where "later st1 st2" "Some st2 = Some m" by blast
  with st1 show ?thesis by (auto simp: later_def)
qed

text \<open>
  \<^verbatim>\<open>exec\<close> on a global expression whose pattern begins with a non-empty literal: a match
  moves \<^verbatim>\<open>lastIndex\<close> forward, within the string, and changes nothing else.
\<close>

lemma exec_progress:
  assumes src: "source re = Seq (Str (d # ds)) r" and g: "global re"
    and ex: "exec re s = (Some m, re')"
  shows "re' = re\<lparr>lastIndex := lastIndex re'\<rparr> \<and> lastIndex re < lastIndex re' \<and> lastIndex re' \<le> length s"
proof -
  let ?li = "lastIndex re"
  from ex g have le: "?li \<le> length s"
    by (auto simp: exec_def Let_def split: if_splits)
  from ex g le obtain p0 p' q' c' where
    found: "rx_search (source re) (rflags re) (rev (take ?li s)) (drop ?li s) = Some (p0, (p', q', c'))"
    and re': "re' = re\<lparr>lastIndex := length p'\<rparr>"
    by (auto simp: exec_def Let_def split: if_splits option.splits)
  from rx_search_found[OF found] obtain q0 where
    q0: "rev p0 @ q0 = rev (rev (take ?li s)) @ drop ?li s" "length (rev (take ?li s)) \<le> length p0"
        "rx_run (source re) (rflags re) (p0, q0, []) Some = Some (p', q', c')" by blast
  from literal_head_progress[OF q0(3)[unfolded src]]
  have m: "rev p' @ q' = rev p0 @ q0" "length q' < length q0" by simp_all
  from q0(1) have s: "rev p0 @ q0 = s" by simp
  from m(1) s have "length p' + length q' = length s" by (metis length_append length_rev)
  moreover from s have "length p0 + length q0 = length s" by (metis length_append length_rev)
  moreover from q0(2) le have "?li \<le> length p0" by simp
  ultimately have "?li < length p' \<and> length p' \<le> length s" using m(2) by linarith
  with re' show ?thesis by simp
qed

lemma exec_none_keeps:
  "exec re s = (None, re') \<Longrightarrow> source re' = source re \<and> global re' = global re"
  by (auto simp: exec_def Let_def split: if_splits option.splits)

text \<open>The \<^verbatim>\<open>while\<close> loop over such an expression returns.\<close>

lemma while_exec_returns:
  assumes src: "source re = Seq (Str (d # ds)) r" and g: "global re"
  shows "\<exists>res. while_exec re content body acc = Some res"
  using src g
proof (induction "Suc (length content) - lastIndex re" arbitrary: re acc rule: less_induct)
  case less
  obtain om re' where ex: "exec re content = (om, re')" by (cases "exec re content")
  show ?case
  proof (cases om)
    case None
    with ex show ?thesis by (subst while_exec.simps) simp
  next
    case (Some m)
    from exec_progress[OF less.prems(1,2) ex[unfolded Some]]
    have p: "re' = re\<lparr>lastIndex := lastIndex re'\<rparr>" "lastIndex re < lastIndex re'" "lastIndex re' \<le> length content"
      by simp_all
    from p(1) less.prems have src': "source re' = Seq (Str (d # ds)) r" and g': "global re'"
      by (metis regex.select_convs(1) regex.surjective regex.update_convs(4),
          metis regex.select_convs(2) regex.surjective regex.update_convs(4))
    from p(2,3) have "Suc (length content) - lastIndex re' < Suc (length content) - lastIndex re" by simp
    from less.hyps[OF this src' g'] obtain res where "while_exec re' content body (body m acc) = Some res"
      by blast
    with ex Some show ?thesis by (subst while_exec.simps) simp
  qed
qed

lemma checkHTMLFile_returns: "\<exists>i'. checkHTMLFile relativePath content lns i = Some i'"
proof -
  have img: "\<And>acc. \<exists>res. while_exec imgTagRegex content (img_body relativePath content) acc = Some res"
    by (rule while_exec_returns[where d = "CHR ''<''"]) (simp_all add: imgTagRegex_def re_gi_def)
  have inp: "\<exists>res. while_exec inputRegex content (attr_body ''id'') [] = Some res"
    by (rule while_exec_returns[where d = "CHR ''<''"]) (simp_all add: inputRegex_def re_gi_def)
  have lab: "\<exists>res. while_exec labelRegex content (attr_body ''for'') [] = Some res"
    by (rule while_exec_returns[where d = "CHR ''<''"]) (simp_all add: labelRegex_def re_gi_def)
  from img inp lab show ?thesis
    unfolding checkHTMLFile_def Let_def by (metis (no_types, lifting) option.simps(5))
qed

lemma language_checks_returns: "\<exists>i'. language_checks ext relativePath content lns i = Some i'"
  using checkHTMLFile_returns by (simp add: language_checks_def)

lemma checkFile_readable:
  assumes "readFileSync e filePath = Inr content"
  shows "\<exists>s'. checkFile e s filePath = Returns s'"
proof -
  obtain rs' i2 where l: "lines_forEach (replace_str filePath (projectRoot e @ ''/'') []) 0 (split content CHR 0x0A)
      (table s (getPatternsForFile filePath))
      (size_checks filePath (replace_str filePath (projectRoot e @ ''/'') []) (split content CHR 0x0A) (ISSUES s)) = (rs', i2)"
    by (cases "lines_forEach (replace_str filePath (projectRoot e @ ''/'') []) 0 (split content CHR 0x0A)
      (table s (getPatternsForFile filePath))
      (size_checks filePath (replace_str filePath (projectRoot e @ ''/'') []) (split content CHR 0x0A) (ISSUES s))")
  obtain i3 where "language_checks (getFileExtension filePath) (replace_str filePath (projectRoot e @ ''/'') []) content (split content CHR 0x0A) i2 = Some i3"
    using language_checks_returns by blast
  with assms l show ?thesis by (simp add: checkFile_def Let_def)
qed

lemma checkFile_unreadable:
  "readFileSync e filePath = Inl err \<Longrightarrow> checkFile e s filePath = Throws err"
  by (simp add: checkFile_def Let_def)

section \<open>The checks only append to the store\<close>

lemma grows_by_refl: "grows_by P i i"
  by (simp add: grows_by_def)

lemma grows_by_trans: "grows_by P a b \<Longrightarrow> grows_by P b c \<Longrightarrow> grows_by P a c"
  unfolding grows_by_def
proof
  fix s
  assume ab: "\<forall>s. \<exists>xs. bucket b s = bucket a s @ xs \<and> list_all P xs"
    and bc: "\<forall>s. \<exists>xs. bucket c s = bucket b s @ xs \<and> list_all P xs"
  from ab obtain xs where xs: "bucket b s = bucket a s @ xs" "list_all P xs" by blast
  from bc obtain ys where ys: "bucket c s = bucket b s @ ys" "list_all P ys" by blast
  from xs ys have "bucket c s = bucket a s @ (xs @ ys) \<and> list_all P (xs @ ys)" by simp
  then show "\<exists>zs. bucket c s = bucket a s @ zs \<and> list_all P zs" by blast
qed

lemma grows_by_mono: "grows_by P a b \<Longrightarrow> (\<And>f. P f \<Longrightarrow> Q f) \<Longrightarrow> grows_by Q a b"
  unfolding grows_by_def list_all_iff by blast

lemma grows_by_push: "P f \<Longrightarrow> grows_by P i (push s f i)"
  unfolding grows_by_def
proof
  fix t assume "P f"
  then show "\<exists>xs. bucket (push s f i) t = bucket i t @ xs \<and> list_all P xs"
    by (cases s; cases t) simp_all
qed

lemma grows_by_push_trans: "grows_by P a b \<Longrightarrow> P f \<Longrightarrow> grows_by P a (push s f b)"
  using grows_by_push grows_by_trans by blast

lemma grows_by_high: "grows_by P i i' \<Longrightarrow> \<exists>xs. high i' = high i @ xs \<and> list_all P xs"
  unfolding grows_by_def by (metis bucket.simps(2))

lemma grows_by_medium: "grows_by P i i' \<Longrightarrow> \<exists>xs. medium i' = medium i @ xs \<and> list_all P xs"
  unfolding grows_by_def by (metis bucket.simps(3))

lemma grows_by_critical: "grows_by P i i' \<Longrightarrow> \<exists>xs. critical i' = critical i @ xs \<and> list_all P xs"
  unfolding grows_by_def by (metis bucket.simps(1))

lemma grows_by_low: "grows_by P i i' \<Longrightarrow> \<exists>xs. low i' = low i @ xs \<and> list_all P xs"
  unfolding grows_by_def by (metis bucket.simps(4))

lemma grows_by_info: "grows_by P i i' \<Longrightarrow> \<exists>xs. info i' = info i @ xs \<and> list_all P xs"
  unfolding grows_by_def by (metis bucket.simps(5))

text \<open>The line rules push findings that carry the message of a rule of the table.\<close>

lemma patterns_forEach_grows:
  "patterns_forEach rel ln idx rs i = (rs', i') \<Longrightarrow>
   grows_by (\<lambda>f. message f \<in> set (map rmessage rs)) i i' \<and> map rmessage rs' = map rmessage rs"
proof (induction rs arbitrary: i rs' i')
  case Nil
  then show ?case by (simp add: grows_by_refl)
next
  case (Cons r rs)
  let ?P = "\<lambda>f. message f \<in> set (map rmessage (r # rs))"
  obtain hit re' where t: "test (pattern r) ln = (hit, re')" by (cases "test (pattern r) ln")
  let ?i1 = "if hit then push (severity r) \<lparr>file' = rel, line = idx + 1, message = rmessage r,
                           code = substring0 (trim ln) 80\<rparr> i else i"
  obtain rs1 i1 where rec: "patterns_forEach rel ln idx rs ?i1 = (rs1, i1)"
    by (cases "patterns_forEach rel ln idx rs ?i1")
  from Cons.prems t rec have eq: "i' = i1" "rs' = r\<lparr>pattern := re'\<rparr> # rs1" by simp_all
  from Cons.IH[OF rec] have ih: "grows_by (\<lambda>f. message f \<in> set (map rmessage rs)) ?i1 i1"
    "map rmessage rs1 = map rmessage rs" by simp_all
  from ih(1) have "grows_by ?P ?i1 i1" by (rule grows_by_mono) simp
  moreover have "grows_by ?P i ?i1" by (simp add: grows_by_refl grows_by_push del: push.simps)
  ultimately have "grows_by ?P i i1" using grows_by_trans by blast
  with eq ih(2) show ?case by simp
qed

lemma lines_forEach_grows:
  "lines_forEach rel idx lns rs i = (rs', i') \<Longrightarrow>
   grows_by (\<lambda>f. message f \<in> set (map rmessage rs)) i i' \<and> map rmessage rs' = map rmessage rs"
proof (induction lns arbitrary: idx rs i)
  case Nil
  then show ?case by (simp add: grows_by_refl)
next
  case (Cons ln lns)
  obtain rs1 i1 where p: "patterns_forEach rel ln idx rs i = (rs1, i1)"
    by (cases "patterns_forEach rel ln idx rs i")
  with Cons.prems have "lines_forEach rel (idx + 1) lns rs1 i1 = (rs', i')" by simp
  from Cons.IH[OF this] patterns_forEach_grows[OF p] show ?case
    using grows_by_trans by fastforce
qed

text \<open>The language checks push findings with messages of their own.\<close>

lemma python_lines_forEach_grows: "grows_by other_finding i (python_lines_forEach rel idx lns i)"
proof (induction lns arbitrary: idx i)
  case Nil
  then show ?case by (simp add: grows_by_refl)
next
  case (Cons ln lns)
  have "grows_by other_finding i (python_def_check rel ln idx i)"
    by (simp add: python_def_check_def Let_def grows_by_refl grows_by_push other_finding_def
        size_message_def del: push.simps split: option.splits)
  with Cons.IH show ?case using grows_by_trans by fastforce
qed

lemma checkPythonFile_grows: "grows_by other_finding i (checkPythonFile rel content lns i)"
  by (simp add: checkPythonFile_def Let_def python_lines_forEach_grows grows_by_push_trans
      other_finding_def size_message_def del: push.simps)

lemma checkSQLFile_grows: "grows_by other_finding i (checkSQLFile rel content lns i)"
  by (simp add: checkSQLFile_def Let_def grows_by_refl grows_by_push grows_by_push_trans
      other_finding_def size_message_def del: push.simps)

lemma inputIds_forEach_grows: "grows_by other_finding i (inputIds_forEach rel labelFors ids i)"
proof (induction ids arbitrary: i)
  case Nil
  then show ?case by (simp add: grows_by_refl)
next
  case (Cons a ids)
  let ?i1 = "if a \<notin> set labelFors
        then push Medium
               \<lparr>file' = rel, line = 1,
                message = ''Input with id='' @ [CHR 0x22] @ a @ [CHR 0x22]
                  @ '' missing corresponding label (accessibility issue)'',
                code = ''<label for='' @ [CHR 0x22] @ a @ [CHR 0x22] @ ''>...</label>''\<rparr> i
        else i"
  have "grows_by other_finding i ?i1"
    by (simp add: grows_by_refl grows_by_push other_finding_def size_message_def del: push.simps)
  moreover have "grows_by other_finding ?i1 (inputIds_forEach rel labelFors ids ?i1)"
    by (rule Cons.IH)
  ultimately have "grows_by other_finding i (inputIds_forEach rel labelFors ids ?i1)"
    by (rule grows_by_trans)
  then show ?case
    by (simp only: inputIds_forEach.simps)
qed

text \<open>What holds before the loop and is kept by the loop body holds when the loop returns.\<close>

lemma while_exec_invariant:
  assumes "while_exec re content body acc = Some res" and "P acc"
    and "\<And>m a. P a \<Longrightarrow> P (body m a)"
  shows "P res"
proof -
  have "(\<forall>m a. P a \<longrightarrow> P (body m a)) \<longrightarrow> P acc \<longrightarrow> P res"
    by (rule while_exec.raw_induct[where P = "\<lambda>re content body acc res.
            (\<forall>m a. P a \<longrightarrow> P (body m a)) \<longrightarrow> P acc \<longrightarrow> P res", OF _ assms(1)])
       (auto split: prod.splits option.splits)
  with assms(2,3) show ?thesis by blast
qed

lemma img_body_grows: "grows_by other_finding i a \<Longrightarrow> grows_by other_finding i (img_body rel content m a)"
  by (simp add: img_body_def Let_def grows_by_push_trans other_finding_def size_message_def
      del: push.simps)

lemma checkHTMLFile_grows:
  assumes "checkHTMLFile rel content lns i = Some i'"
  shows "grows_by other_finding i i'"
proof -
  let ?i1 = "if \<not> startsWith (toLowerCase (trim content)) ''<!doctype''
              then push Low \<lparr>file' = rel, line = 1, message = ''HTML file missing DOCTYPE declaration'',
                        code = ''<!DOCTYPE html>''\<rparr> i else i"
  from assms obtain i2 inputIds labelFors where
    w: "while_exec imgTagRegex content (img_body rel content) ?i1 = Some i2"
    and r: "i' = inputIds_forEach rel labelFors inputIds i2"
    by (auto simp: checkHTMLFile_def Let_def simp del: push.simps split: option.splits)
  have "grows_by other_finding i ?i1"
    by (simp add: grows_by_refl grows_by_push other_finding_def size_message_def del: push.simps)
  with w have "grows_by other_finding i i2"
    by (rule while_exec_invariant) (rule img_body_grows)
  with r show ?thesis using inputIds_forEach_grows grows_by_trans by blast
qed

lemma language_checks_grows:
  "language_checks ext rel content lns i = Some i' \<Longrightarrow> grows_by other_finding i i'"
  using checkHTMLFile_grows checkPythonFile_grows checkSQLFile_grows grows_by_refl
  by (auto simp: language_checks_def split: if_splits)

text \<open>No rule of the four tables carries the message of a size check.\<close>

lemma rule_messages:
  "m \<in> set (map rmessage (table state_init ref)) \<Longrightarrow> \<not> size_message m"
  by (cases ref)
     (auto simp: state_init_def TS_JS_PATTERNS_init_def PYTHON_PATTERNS_init_def
        HTML_PATTERNS_init_def SQL_PATTERNS_init_def todo_rule_def size_message_def)

lemma rules_intact_init: "rules_intact state_init"
  by (simp add: rules_intact_def)

lemma rules_intact_set_table:
  assumes "rules_intact s" and "map rmessage rs' = map rmessage (table s ref)"
  shows "rules_intact (set_table ref rs' s\<lparr>ISSUES := i\<rparr>)"
  unfolding rules_intact_def
proof
  fix r
  from assms have "map rmessage (table s r) = map rmessage (table state_init r)"
    and "map rmessage rs' = map rmessage (table state_init ref)"
    by (simp_all add: rules_intact_def)
  then show "map rmessage (table (set_table ref rs' s\<lparr>ISSUES := i\<rparr>) r) = map rmessage (table state_init r)"
    by (cases ref; cases r) simp_all
qed

section \<open>Line count and size checks\<close>

lemma split_acc_length: "length (split_acc c cur s) = count_list s c + 1"
  by (induction s arbitrary: cur) simp_all

lemma split_length: "length (split s c) = count_list s c + 1"
  by (simp add: split_def split_acc_length)

text \<open>The finding of the file-size check and of the component-size check.\<close>

lemma size_checks_large:
  assumes "length lns > 500"
  shows "size_checks filePath rel lns i =
     (let tooLarge = \<lparr>file' = rel, line = 1,
            message = ''File is too large ('' @ show_nat (length lns)
                      @ '' lines). Consider splitting. Max recommended: 500 lines'',
            code = take 50 (lns ! 0) @ ''...''\<rparr>;
          largeComponent = \<lparr>file' = rel, line = 1,
            message = ''Component is large ('' @ show_nat (length lns)
                      @ '' lines). Consider extracting logic into custom hooks. Max recommended: 300 lines'',
            code = take 50 (lns ! 0) @ ''...''\<rparr>
      in i\<lparr>high := high i @ [tooLarge],
            medium := medium i @ (if endsWith filePath ''.tsx'' then [largeComponent] else [])\<rparr>)"
proof -
  have "show_nat 500 = ''500''" "show_nat 300 = ''300''"
    by (simp_all add: show_nat.simps)
  with assms show ?thesis
    by (simp add: size_checks_def MAX_FILE_SIZE_def MAX_COMPONENT_SIZE_def substring0_def Let_def)
qed

text \<open>
  What \<^verbatim>\<open>checkFile\<close> does with a readable file: the size checks, then the line rules, then
  the language checks, the last two only appending findings with messages of their own.
\<close>

lemma checkFile_steps:
  assumes "readFileSync e filePath = Inr content"
  shows "\<exists>rs' i'. checkFile e s filePath = Returns (set_table (getPatternsForFile filePath) rs' s\<lparr>ISSUES := i'\<rparr>)
     \<and> map rmessage rs' = map rmessage (table s (getPatternsForFile filePath))
     \<and> grows_by (\<lambda>f. message f \<in> set (map rmessage (table s (getPatternsForFile filePath))) \<or> other_finding f)
          (size_checks filePath (relative_to (projectRoot e) filePath) (split content CHR 0x0A) (ISSUES s))
          i'"
proof -
  let ?rel = "replace_str filePath (projectRoot e @ ''/'') []"
  let ?lns = "split content CHR 0x0A"
  let ?i1 = "size_checks filePath ?rel ?lns (ISSUES s)"
  let ?ref = "getPatternsForFile filePath"
  let ?P = "\<lambda>f. message f \<in> set (map rmessage (table s ?ref)) \<or> other_finding f"
  obtain rs' i2 where l: "lines_forEach ?rel 0 ?lns (table s ?ref) ?i1 = (rs', i2)"
    by (cases "lines_forEach ?rel 0 ?lns (table s ?ref) ?i1")
  obtain i3 where c: "language_checks (getFileExtension filePath) ?rel content ?lns i2 = Some i3"
    using language_checks_returns by blast
  from assms l c have r: "checkFile e s filePath = Returns (set_table ?ref rs' s\<lparr>ISSUES := i3\<rparr>)"
    by (simp add: checkFile_def Let_def)
  from lines_forEach_grows[OF l] have
    g: "grows_by (\<lambda>f. message f \<in> set (map rmessage (table s ?ref))) ?i1 i2"
    and m: "map rmessage rs' = map rmessage (table s ?ref)" by simp_all
  from g have "grows_by ?P ?i1 i2" by (rule grows_by_mono) simp
  moreover from language_checks_grows[OF c] have "grows_by ?P i2 i3" by (rule grows_by_mono) simp
  ultimately have "grows_by ?P ?i1 i3" by (rule grows_by_trans)
  with r m show ?thesis
    unfolding relative_to_def by blast
qed

lemma checkFile_after_size_checks:
  assumes "readFileSync e filePath = Inr content" and "rules_intact s"
  shows "\<exists>s'. checkFile e s filePath = Returns s' \<and> rules_intact s'
     \<and> grows_by other_finding
          (size_checks filePath (relative_to (projectRoot e) filePath) (split content CHR 0x0A) (ISSUES s))
          (ISSUES s')"
proof -
  let ?ref = "getPatternsForFile filePath"
  let ?i1 = "size_checks filePath (relative_to (projectRoot e) filePath) (split content CHR 0x0A) (ISSUES s)"
  from checkFile_steps[OF assms(1), of s] obtain rs' i' where
    r: "checkFile e s filePath = Returns (set_table ?ref rs' s\<lparr>ISSUES := i'\<rparr>)"
    and m: "map rmessage rs' = map rmessage (table s ?ref)"
    and g: "grows_by (\<lambda>f. message f \<in> set (map rmessage (table s ?ref)) \<or> other_finding f) ?i1 i'"
    by blast
  from assms(2) have "map rmessage (table s ?ref) = map rmessage (table state_init ?ref)"
    by (simp add: rules_intact_def)
  with g have "grows_by (\<lambda>f. message f \<in> set (map rmessage (table state_init ?ref)) \<or> other_finding f) ?i1 i'"
    by simp
  then have "grows_by other_finding ?i1 i'"
  proof (rule grows_by_mono)
    fix f
    assume "message f \<in> set (map rmessage (table state_init ?ref)) \<or> other_finding f"
    then show "other_finding f"
      using rule_messages[of "message f" ?ref] unfolding other_finding_def by blast
  qed
  moreover have "rules_intact (set_table ?ref rs' s\<lparr>ISSUES := i'\<rparr>)"
    using assms(2) m by (rule rules_intact_set_table)
  ultimately show ?thesis
    using r by simp
qed

section \<open>The size checks of a file\<close>

text \<open>
  C9. The line count of the size checks is the number of newline characters of the content
  plus one. So a readable file with 500 newline characters (500 lines, each ended by a
  newline) counts as 501 lines, and \<^verbatim>\<open>checkFile\<close> returns with the file-too-large finding
  for 501 lines in the high bucket.
\<close>

theorem C9_line_count:
  "length (split content (CHR 0x0A)) = count_list content (CHR 0x0A) + 1
   \<and> (readFileSync e filePath = Inr content \<and> count_list content (CHR 0x0A) = 500 \<longrightarrow>
        (\<exists>s'. checkFile e s filePath = Returns s'
           \<and> \<lparr>file' = relative_to (projectRoot e) filePath, line = 1,
               message = ''File is too large (501 lines). Consider splitting. Max recommended: 500 lines'',
               code = take 50 (split content (CHR 0x0A) ! 0) @ ''...''\<rparr> \<in> set (high (ISSUES s'))))"
proof (intro conjI impI)
  show "length (split content (CHR 0x0A)) = count_list content (CHR 0x0A) + 1"
    by (rule split_length)
next
  assume h: "readFileSync e filePath = Inr content \<and> count_list content (CHR 0x0A) = 500"
  then have n: "length (split content (CHR 0x0A)) = 501" by (simp add: split_length)
  have sh: "show_nat 501 = ''501''" by (simp add: show_nat.simps)
  from checkFile_steps[of e filePath content s] h obtain s' i' where
    s': "checkFile e s filePath = Returns s'" "ISSUES s' = i'"
        "grows_by (\<lambda>f. message f \<in> set (map rmessage (table s (getPatternsForFile filePath))) \<or> other_finding f)
           (size_checks filePath (relative_to (projectRoot e) filePath) (split content CHR 0x0A) (ISSUES s)) i'"
    by (cases "getPatternsForFile filePath") fastforce+
  from grows_by_high[OF s'(3)] s'(2) obtain xs where
    "high (ISSUES s') = high (size_checks filePath (relative_to (projectRoot e) filePath) (split content CHR 0x0A) (ISSUES s)) @ xs"
    by blast
  with n sh have "\<lparr>file' = relative_to (projectRoot e) filePath, line = 1,
               message = ''File is too large (501 lines). Consider splitting. Max recommended: 500 lines'',
               code = take 50 (split content (CHR 0x0A) ! 0) @ ''...''\<rparr> \<in> set (high (ISSUES s'))"
    by (simp add: size_checks_large Let_def)
  with s'(1) show "\<exists>s'. checkFile e s filePath = Returns s'
           \<and> \<lparr>file' = relative_to (projectRoot e) filePath, line = 1,
               message = ''File is too large (501 lines). Consider splitting. Max recommended: 500 lines'',
               code = take 50 (split content (CHR 0x0A) ! 0) @ ''...''\<rparr> \<in> set (high (ISSUES s'))"
    by blast
qed

lemma count_concat_replicate: "count_list (concat (replicate n l)) c = n * count_list l c"
  by (induction n) simp_all

theorem C9_line_count_witness:
  "readFileSync lines500_env ''/p/notes.sql'' = Inr (concat (replicate 500 (''-- '' @ [CHR 0x0A])))
   \<and> count_list (concat (replicate 500 (''-- '' @ [CHR 0x0A]))) (CHR 0x0A) = 500
   \<and> (\<exists>s'. checkFile lines500_env state_init ''/p/notes.sql'' = Returns s'
         \<and> \<lparr>file' = ''notes.sql'', line = 1,
             message = ''File is too large (501 lines). Consider splitting. Max recommended: 500 lines'',
             code = ''-- ...''\<rparr> \<in> set (high (ISSUES s')))"
proof -
  have r: "readFileSync lines500_env ''/p/notes.sql'' = Inr (concat (replicate 500 (''-- '' @ [CHR 0x0A])))"
    by (simp add: readFileSync_def node_at_def lines500_env_def join_def endsWith_def split_def)
  have c: "count_list (concat (replicate 500 (''-- '' @ [CHR 0x0A]))) (CHR 0x0A) = 500"
    by (simp add: count_concat_replicate)
  have rel: "relative_to (projectRoot lines500_env) ''/p/notes.sql'' = ''notes.sql''"
    by (simp add: relative_to_def lines500_env_def)
  have "replicate 500 (''-- '' @ [CHR 0x0A]) = (''-- '' @ [CHR 0x0A]) # replicate 499 (''-- '' @ [CHR 0x0A])"
    by (simp add: numeral_Bit0 numeral_Bit1 replicate_add[symmetric] del: replicate.simps) (simp add: eval_nat_numeral)
  then have first: "take 50 (split (concat (replicate 500 (''-- '' @ [CHR 0x0A]))) (CHR 0x0A) ! 0) = ''-- ''"
    by (simp add: split_def)
  from C9_line_count[of "concat (replicate 500 (''-- '' @ [CHR 0x0A]))" lines500_env "''/p/notes.sql''" state_init]
    r c rel first
  show ?thesis by simp
qed

text \<open>
  C6 (as amended). For every readable file of more than 500 lines, in a state whose rule
  tables carry their own messages, \<^verbatim>\<open>checkFile\<close> returns, and what it adds to the store is
  this. To the high findings: first the file-too-large finding, at line 1 of the file's
  relative path, then the findings \<open>hs\<close>. To the medium findings: when the path ends in
  \<^verbatim>\<open>.tsx\<close> first the component-size finding, at line 1, otherwise no such finding, then the
  findings \<open>ms\<close>. To the critical, low and info findings: \<open>cs\<close>, \<open>ls\<close> and \<open>ns\<close>. None of
  the findings in \<open>cs\<close>, \<open>hs\<close>, \<open>ms\<close>, \<open>ls\<close> and \<open>ns\<close>, which the line rules and the
  language checks add, also high ones at line 1, is a finding of a size check: each size
  finding is added exactly once, in no other bucket.
\<close>

theorem C6_size_findings:
  assumes "readFileSync e filePath = Inr content"
    and "length (split content (CHR 0x0A)) > 500"
    and "rules_intact s"
  shows "\<exists>s' cs hs ms ls ns. checkFile e s filePath = Returns s'
     \<and> critical (ISSUES s') = critical (ISSUES s) @ cs
     \<and> high (ISSUES s') = high (ISSUES s) @
          \<lparr>file' = relative_to (projectRoot e) filePath, line = 1,
            message = ''File is too large ('' @ show_nat (length (split content (CHR 0x0A)))
                      @ '' lines). Consider splitting. Max recommended: 500 lines'',
            code = take 50 (split content (CHR 0x0A) ! 0) @ ''...''\<rparr> # hs
     \<and> medium (ISSUES s') = medium (ISSUES s) @
          (if endsWith filePath ''.tsx''
           then [\<lparr>file' = relative_to (projectRoot e) filePath, line = 1,
                  message = ''Component is large ('' @ show_nat (length (split content (CHR 0x0A)))
                      @ '' lines). Consider extracting logic into custom hooks. Max recommended: 300 lines'',
                  code = take 50 (split content (CHR 0x0A) ! 0) @ ''...''\<rparr>]
           else []) @ ms
     \<and> low (ISSUES s') = low (ISSUES s) @ ls
     \<and> info (ISSUES s') = info (ISSUES s) @ ns
     \<and> list_all other_finding (cs @ hs @ ms @ ls @ ns)"
proof -
  let ?i1 = "size_checks filePath (relative_to (projectRoot e) filePath) (split content CHR 0x0A) (ISSUES s)"
  from checkFile_after_size_checks[OF assms(1,3)] obtain s' where
    s': "checkFile e s filePath = Returns s'" "grows_by other_finding ?i1 (ISSUES s')"
    by blast
  from grows_by_critical[OF s'(2)] obtain cs where
    cs: "critical (ISSUES s') = critical ?i1 @ cs" "list_all other_finding cs" by blast
  from grows_by_high[OF s'(2)] obtain hs where
    hs: "high (ISSUES s') = high ?i1 @ hs" "list_all other_finding hs" by blast
  from grows_by_medium[OF s'(2)] obtain ms where
    ms: "medium (ISSUES s') = medium ?i1 @ ms" "list_all other_finding ms" by blast
  from grows_by_low[OF s'(2)] obtain ls where
    ls: "low (ISSUES s') = low ?i1 @ ls" "list_all other_finding ls" by blast
  from grows_by_info[OF s'(2)] obtain ns where
    ns: "info (ISSUES s') = info ?i1 @ ns" "list_all other_finding ns" by blast
  have i1: "critical ?i1 = critical (ISSUES s)" "low ?i1 = low (ISSUES s)" "info ?i1 = info (ISSUES s)"
    "high ?i1 = high (ISSUES s) @
          [\<lparr>file' = relative_to (projectRoot e) filePath, line = 1,
            message = ''File is too large ('' @ show_nat (length (split content (CHR 0x0A)))
                      @ '' lines). Consider splitting. Max recommended: 500 lines'',
            code = take 50 (split content (CHR 0x0A) ! 0) @ ''...''\<rparr>]"
    "medium ?i1 = medium (ISSUES s) @
          (if endsWith filePath ''.tsx''
           then [\<lparr>file' = relative_to (projectRoot e) filePath, line = 1,
                  message = ''Component is large ('' @ show_nat (length (split content (CHR 0x0A)))
                      @ '' lines). Consider extracting logic into custom hooks. Max recommended: 300 lines'',
                  code = take 50 (split content (CHR 0x0A) ! 0) @ ''...''\<rparr>]
           else [])"
    using assms(2) by (simp_all add: size_checks_large Let_def)
  show ?thesis
    by (rule exI[of _ s'], rule exI[of _ cs], rule exI[of _ hs], rule exI[of _ ms],
        rule exI[of _ ls], rule exI[of _ ns])
       (simp add: s'(1) cs hs ms ls ns i1)
qed

lemma count_list_replicate_same: "count_list (replicate n c) c = n"
  by (induction n) simp_all

lemma count_list_append_replicate: "count_list (xs @ replicate n c) c = count_list xs c + n"
  by (induction xs) (simp_all add: count_list_replicate_same)

theorem C6_size_findings_witness:
  "readFileSync big_component_env ''/p/Panel.tsx'' = Inr (''export default Panel;'' @ replicate 500 (CHR 0x0A))
   \<and> length (split (''export default Panel;'' @ replicate 500 (CHR 0x0A)) (CHR 0x0A)) > 500
   \<and> rules_intact state_init
   \<and> endsWith ''/p/Panel.tsx'' ''.tsx''
   \<and> (\<exists>s' cs hs ms ls ns. checkFile big_component_env state_init ''/p/Panel.tsx'' = Returns s'
        \<and> critical (ISSUES s') = cs
        \<and> high (ISSUES s') =
            \<lparr>file' = ''Panel.tsx'', line = 1,
              message = ''File is too large (501 lines). Consider splitting. Max recommended: 500 lines'',
              code = ''export default Panel;...''\<rparr> # hs
        \<and> medium (ISSUES s') =
            \<lparr>file' = ''Panel.tsx'', line = 1,
              message = ''Component is large (501 lines). Consider extracting logic into custom hooks. Max recommended: 300 lines'',
              code = ''export default Panel;...''\<rparr> # ms
        \<and> low (ISSUES s') = ls
        \<and> info (ISSUES s') = ns
        \<and> list_all other_finding (cs @ hs @ ms @ ls @ ns))"
proof -
  have r: "readFileSync big_component_env ''/p/Panel.tsx''
             = Inr (''export default Panel;'' @ replicate 500 (CHR 0x0A))"
    by (simp add: readFileSync_def node_at_def big_component_env_def join_def endsWith_def split_def)
  have n: "length (split (''export default Panel;'' @ replicate 500 (CHR 0x0A)) (CHR 0x0A)) = 501"
    unfolding split_length count_list_append_replicate by simp
  have sh: "show_nat 501 = ''501''" by (simp add: show_nat.simps)
  have rel: "relative_to (projectRoot big_component_env) ''/p/Panel.tsx'' = ''Panel.tsx''"
    by (simp add: relative_to_def big_component_env_def)
  have first: "take 50 (split (''export default Panel;'' @ replicate 500 (CHR 0x0A)) (CHR 0x0A) ! 0)
                 = ''export default Panel;''"
    by (simp add: split_def eval_nat_numeral)
  have tsx: "endsWith ''/p/Panel.tsx'' ''.tsx''"
    by (simp add: endsWith_def)
  have gt: "length (split (''export default Panel;'' @ replicate 500 (CHR 0x0A)) (CHR 0x0A)) > 500"
    using n by simp
  have init: "critical (ISSUES state_init) = []" "high (ISSUES state_init) = []"
    "medium (ISSUES state_init) = []" "low (ISSUES state_init) = []" "info (ISSUES state_init) = []"
    by (simp_all add: state_init_def ISSUES_init_def)
  note C6_size_findings[OF r gt rules_intact_init]
  then have "\<exists>s' cs hs ms ls ns. checkFile big_component_env state_init ''/p/Panel.tsx'' = Returns s'
        \<and> critical (ISSUES s') = cs
        \<and> high (ISSUES s') =
            \<lparr>file' = ''Panel.tsx'', line = 1,
              message = ''File is too large (501 lines). Consider splitting. Max recommended: 500 lines'',
              code = ''export default Panel;...''\<rparr> # hs
        \<and> medium (ISSUES s') =
            \<lparr>file' = ''Panel.tsx'', line = 1,
              message = ''Component is large (501 lines). Consider extracting logic into custom hooks. Max recommended: 300 lines'',
              code = ''export default Panel;...''\<rparr> # ms
        \<and> low (ISSUES s') = ls
        \<and> info (ISSUES s') = ns
        \<and> list_all other_finding (cs @ hs @ ms @ ls @ ns)"
    unfolding n sh rel first init using tsx by simp
  with r gt rules_intact_init tsx show ?thesis by blast
qed

text \<open>
  The claim as first stated fails: a TypeScript file of 501 lines whose first line declares
  a variable of type \<^verbatim>\<open>any\<close> gets two high findings at line 1, the file-too-large finding and
  the finding of the \<^verbatim>\<open>any\<close> rule.
\<close>

theorem C6_two_high_findings_at_line_1:
  "map_option ISSUES (returned (checkFile big_env state_init ''/p/big.ts'')) =
     Some \<lparr>critical = [],
           high = [\<lparr>file' = ''big.ts'', line = 1,
                     message = ''File is too large (501 lines). Consider splitting. Max recommended: 500 lines'',
                     code = ''x: any;...''\<rparr>,
                   \<lparr>file' = ''big.ts'', line = 1,
                     message = ''Type safety issue: any type used'',
                     code = ''x: any;''\<rparr>],
           medium = [], low = [], info = []\<rparr>"
  by code_simp

section \<open>Line rules and the image checks on concrete files\<close>

text \<open>
  C2. The rule patterns carry the \<^verbatim>\<open>g\<close> flag and are tested with \<^verbatim>\<open>test\<close>, which resumes
  at the \<^verbatim>\<open>lastIndex\<close> left by the previous success. In a file with a \<^verbatim>\<open>console.log\<close> call
  on each of its two lines the rule matches line 2 when tried on its own, yet \<^verbatim>\<open>checkFile\<close>
  reports line 1 only.
\<close>

theorem C2_second_line_skipped:
  "fst (test (re_g (Str ''console.log('')) ''console.log(2)'') = True
   \<and> map_option ISSUES (returned (checkFile two_logs_env state_init ''/p/app.js'')) =
       Some \<lparr>critical = [], high = [],
             medium = [\<lparr>file' = ''app.js'', line = 1,
                        message = ''console.log found (use proper logging)'',
                        code = ''console.log(1)''\<rparr>],
             low = [], info = []\<rparr>"
  by code_simp

text \<open>
  C5. For an HTML file with an image tag with \<^verbatim>\<open>alt\<close> on line 1 and one without on line 2,
  \<^verbatim>\<open>checkFile\<close> reports two missing-alt findings of medium severity: the line rule flags the
  tag that has the attribute, and the scan of \<^verbatim>\<open>checkHTMLFile\<close> flags the tag that lacks it.
\<close>

theorem C5_two_missing_alt_findings:
  "map_option ISSUES (returned (checkFile two_images_env state_init ''/p/index.html'')) =
     Some \<lparr>critical = [], high = [],
           medium = [\<lparr>file' = ''index.html'', line = 1,
                      message = ''Image missing alt attribute (accessibility issue)'',
                      code = ''<img src='' @ [CHR 0x22] @ ''a.png'' @ [CHR 0x22] @ '' alt='' @ [CHR 0x22] @ ''A'' @ [CHR 0x22] @ ''>''\<rparr>,
                     \<lparr>file' = ''index.html'', line = 2,
                      message = ''Image missing alt attribute (accessibility issue)'',
                      code = ''<img src='' @ [CHR 0x22] @ ''b.png'' @ [CHR 0x22] @ ''>''\<rparr>],
           low = [\<lparr>file' = ''index.html'', line = 1,
                   message = ''HTML file missing DOCTYPE declaration'',
                   code = ''<!DOCTYPE html>''\<rparr>],
           info = []\<rparr>"
  by code_simp

section \<open>Files that cannot be read, roots that do not exist\<close>

lemma files_forEach_stops:
  assumes "\<forall>f \<in> set before. \<exists>content. readFileSync e f = Inr content"
    and "readFileSync e filePath = Inl err"
  shows "files_forEach e s (before @ filePath # rest) = Throws err"
  using assms(1)
proof (induction before arbitrary: s)
  case Nil
  from assms(2) show ?case by (simp add: checkFile_unreadable)
next
  case (Cons f before)
  then obtain content where "readFileSync e f = Inr content" by auto
  from checkFile_readable[OF this] obtain s' where "checkFile e s f = Returns s'" by blast
  with Cons show ?case by simp
qed

text \<open>
  When a discovered file cannot be read, \<^verbatim>\<open>checkFile\<close> throws the read error and nothing
  catches it: the run ends at the first such file with that error.
\<close>

lemma main_stops_at_unreadable_file:
  assumes "getAllFiles (projectRoot e) (root_node e) [] = Inr (before @ filePath # rest)"
    and "\<forall>f \<in> set before. \<exists>content. readFileSync e f = Inr content"
    and "readFileSync e filePath = Inl err"
  shows "main e = Throws err"
  using assms(1) files_forEach_stops[OF assms(2,3)]
  by (simp add: main_def run_checks_def checks_before_manifest_def)

text \<open>
  C3. The claim is that a discovered file that cannot be read gets a medium finding and
  that the run goes on with the remaining files. The script does otherwise: in a project of
  three discovered files whose second file cannot be read, the read in \<^verbatim>\<open>checkFile\<close> throws
  and the run ends with that error. No finding is recorded for the file, the third file is
  never analysed and no report is produced.
\<close>

theorem C3_run_aborts_on_locked_file:
  "getAllFiles (projectRoot locked_env) (root_node locked_env) []
     = Inr [''/p/app.js'', ''/p/locked.ts'', ''/p/util.js'']
   \<and> readFileSync locked_env ''/p/locked.ts'' = Inl (EACCES ''/p/locked.ts'')
   \<and> main locked_env = Throws (EACCES ''/p/locked.ts'')"
  by code_simp

text \<open>
  The discoverer guards one thing, a path that does not exist. An entry that is listed
  and not there, and a directory that cannot be listed and is not one of the skipped
  names, make it throw.
\<close>

lemma getAllFiles_each_unguarded:
  "getAllFiles_each dir ((name, Vanished) # rest) fl = Inl (ENOENT_stat (join dir name))"
  "name \<notin> set skipped_directories \<Longrightarrow>
     getAllFiles_each dir ((name, Unlistable) # rest) fl = Inl (EACCES_scandir (join dir name))"
  by simp_all

lemma split_not_Nil: "split s c \<noteq> []"
  using split_length[of s c] by auto

lemma missing_root_cases:
  "\<not> existsSync e (projectRoot e) \<Longrightarrow> root_node e = None \<or> root_node e = Some Vanished"
  by (simp add: existsSync_def node_at_def)

lemma missing_root_no_manifest:
  assumes "\<not> existsSync e (projectRoot e)"
  shows "\<not> existsSync e (join (projectRoot e) ''package.json'')"
proof -
  have ne: "join (projectRoot e) ''package.json'' \<noteq> projectRoot e"
    by (simp add: join_def)
  have below: "fs_lookup Vanished (split s c) = None" for s c
    using split_not_Nil[of s c] by (cases "split s c") simp_all
  from missing_root_cases[OF assms] ne below show ?thesis
    by (auto simp: existsSync_def node_at_def)
qed

lemma missing_root_getAllFiles:
  "\<not> existsSync e (projectRoot e) \<Longrightarrow> getAllFiles (projectRoot e) (root_node e) fileList = Inr fileList"
  using missing_root_cases[of e] by auto

text \<open>
  C4 (as amended). A project root that does not exist is not an error: the discoverer
  returns the list it was given, the run goes on and reports the no-test-files finding
  (high) and the no-package.json finding (info) with exit status 1.
\<close>

theorem C4_missing_root_is_reported:
  assumes "\<not> existsSync e (projectRoot e)"
  shows "getAllFiles (projectRoot e) (root_node e) fileList = Inr fileList
      \<and> run_checks e = Returns
           \<lparr>critical = [],
            high = [\<lparr>file' = ''project'', line = 0,
                     message = ''No test files found. Consider adding tests for critical functionality.'',
                     code = ''Set up Vitest, Jest, or your preferred testing framework''\<rparr>],
            medium = [], low = [],
            info = [\<lparr>file' = ''package.json'', line = 0,
                     message = ''No package.json found. This may not be a Node.js project.'',
                     code = []\<rparr>]\<rparr>
      \<and> (\<exists>r. main e = Returns r \<and> exit_status r = 1)"
proof (intro conjI)
  show "getAllFiles (projectRoot e) (root_node e) fileList = Inr fileList"
    by (rule missing_root_getAllFiles[OF assms])
  show rc: "run_checks e = Returns
           \<lparr>critical = [],
            high = [\<lparr>file' = ''project'', line = 0,
                     message = ''No test files found. Consider adding tests for critical functionality.'',
                     code = ''Set up Vitest, Jest, or your preferred testing framework''\<rparr>],
            medium = [], low = [],
            info = [\<lparr>file' = ''package.json'', line = 0,
                     message = ''No package.json found. This may not be a Node.js project.'',
                     code = []\<rparr>]\<rparr>"
    by (simp add: run_checks_def checks_before_manifest_def checkForDuplicates_def duplicates_in_def
        checkForTests_def checkPackageJson_def missing_root_getAllFiles[OF assms]
        missing_root_no_manifest[OF assms] state_init_def ISSUES_init_def)
  then show "\<exists>r. main e = Returns r \<and> exit_status r = 1"
    by (simp add: main_def generateReport_def report_verdict_def)
qed

theorem C4_missing_root_is_reported_witness:
  "\<not> existsSync missing_root_env (projectRoot missing_root_env)
   \<and> getAllFiles (projectRoot missing_root_env) (root_node missing_root_env) [] = Inr []
   \<and> (\<exists>r. main missing_root_env = Returns r \<and> exit_status r = 1)"
proof -
  have n: "\<not> existsSync missing_root_env (projectRoot missing_root_env)"
    by (simp add: existsSync_def node_at_def missing_root_env_def)
  from C4_missing_root_is_reported[OF n, of "[]"] n show ?thesis by simp
qed

text \<open>
  The claim as first stated fails: for a root that does not exist the run returns a report
  with exit status 1, having pushed two findings; nothing is thrown.
\<close>

theorem C4_missing_root_run_returns:
  "run_checks missing_root_env = Returns
     \<lparr>critical = [],
      high = [\<lparr>file' = ''project'', line = 0,
               message = ''No test files found. Consider adding tests for critical functionality.'',
               code = ''Set up Vitest, Jest, or your preferred testing framework''\<rparr>],
      medium = [], low = [],
      info = [\<lparr>file' = ''package.json'', line = 0,
               message = ''No package.json found. This may not be a Node.js project.'',
               code = []\<rparr>]\<rparr>
   \<and> map_option exit_status (returned (main missing_root_env)) = Some 1"
  by code_simp

section \<open>The manifest\<close>

text \<open>
  C8. When \<^verbatim>\<open>package.json\<close> exists and can be read but \<^verbatim>\<open>JSON.parse\<close> rejects its text,
  \<^verbatim>\<open>checkPackageJson\<close> pushes exactly one critical finding and nothing else, and a run
  whose earlier analysers returned hands the store with that finding to the reporter: the
  report is produced, with exit status 1.
\<close>

theorem C8_unparsable_manifest:
  assumes "readFileSync e (join (projectRoot e) ''package.json'') = Inr text"
    and "JSON_parse e text = Inl msg"
  shows "checkPackageJson e i =
           i\<lparr>critical := critical i @
              [\<lparr>file' = ''package.json'', line = 0, message = ''Could not read package.json'',
                code = msg\<rparr>]\<rparr>
         \<and> (checks_before_manifest e = Returns i \<longrightarrow>
              main e = Returns (generateReport (projectRoot e)
                 (i\<lparr>critical := critical i @
                    [\<lparr>file' = ''package.json'', line = 0, message = ''Could not read package.json'',
                      code = msg\<rparr>]\<rparr>))
              \<and> (\<exists>r. main e = Returns r \<and> exit_status r = 1))"
proof -
  from assms(1) have ex: "existsSync e (join (projectRoot e) ''package.json'')"
    by (auto simp: existsSync_def readFileSync_def split: option.splits)
  with assms have c: "checkPackageJson e i =
           i\<lparr>critical := critical i @
              [\<lparr>file' = ''package.json'', line = 0, message = ''Could not read package.json'',
                code = msg\<rparr>]\<rparr>"
    by (simp add: checkPackageJson_def manifest_try_def Let_def)
  then show ?thesis
    by (simp add: main_def run_checks_def generateReport_def report_verdict_def)
qed

theorem C8_unparsable_manifest_witness:
  "readFileSync services_env (join (projectRoot services_env) ''package.json'') = Inr ''{ ''
   \<and> JSON_parse services_env ''{ '' = Inl ''Unexpected end of JSON input''
   \<and> checks_before_manifest services_env = Returns
        \<lparr>critical = [\<lparr>file' = ''services/'', line = 0,
                         message = ''Potential duplicate service files detected: api/UserService.ts, legacy/userservice.js'',
                         code = ''Consider consolidating into a single service file''\<rparr>],
          high = [\<lparr>file' = ''project'', line = 0,
                     message = ''No test files found. Consider adding tests for critical functionality.'',
                     code = ''Set up Vitest, Jest, or your preferred testing framework''\<rparr>],
          medium = [], low = [], info = []\<rparr>
   \<and> run_checks services_env = Returns
        \<lparr>critical = [\<lparr>file' = ''services/'', line = 0,
                         message = ''Potential duplicate service files detected: api/UserService.ts, legacy/userservice.js'',
                         code = ''Consider consolidating into a single service file''\<rparr>,
                       \<lparr>file' = ''package.json'', line = 0, message = ''Could not read package.json'',
                         code = ''Unexpected end of JSON input''\<rparr>],
          high = [\<lparr>file' = ''project'', line = 0,
                     message = ''No test files found. Consider adding tests for critical functionality.'',
                     code = ''Set up Vitest, Jest, or your preferred testing framework''\<rparr>],
          medium = [], low = [], info = []\<rparr>
   \<and> (\<exists>r. main services_env = Returns r \<and> exit_status r = 1)"
proof -
  let ?i = "\<lparr>critical = [\<lparr>file' = ''services/'', line = 0,
                         message = ''Potential duplicate service files detected: api/UserService.ts, legacy/userservice.js'',
                         code = ''Consider consolidating into a single service file''\<rparr>],
          high = [\<lparr>file' = ''project'', line = 0,
                     message = ''No test files found. Consider adding tests for critical functionality.'',
                     code = ''Set up Vitest, Jest, or your preferred testing framework''\<rparr>],
          medium = [], low = [], info = []\<rparr>"
  have r: "readFileSync services_env (join (projectRoot services_env) ''package.json'') = Inr ''{ ''"
    by code_simp
  have p: "JSON_parse services_env ''{ '' = Inl ''Unexpected end of JSON input''"
    by (simp add: services_env_def)
  have b: "checks_before_manifest services_env = Returns ?i"
    by code_simp
  note c8 = C8_unparsable_manifest[OF r p, of ?i]
  from c8 b have m: "\<exists>r. main services_env = Returns r \<and> exit_status r = 1"
    by blast
  from c8 have "checkPackageJson services_env ?i = ?i\<lparr>critical := critical ?i @
              [\<lparr>file' = ''package.json'', line = 0, message = ''Could not read package.json'',
                code = ''Unexpected end of JSON input''\<rparr>]\<rparr>"
    by (rule conjunct1)
  with b have rc: "run_checks services_env = Returns (?i\<lparr>critical := critical ?i @
              [\<lparr>file' = ''package.json'', line = 0, message = ''Could not read package.json'',
                code = ''Unexpected end of JSON input''\<rparr>]\<rparr>)"
    by (simp add: run_checks_def)
  from r p b rc m show ?thesis
    by simp
qed

section \<open>The duplicate detector\<close>

lemma firsts_snoc: "firsts (xs @ [x]) = (if x \<in> set xs then firsts xs else firsts xs @ [x])"
  by (simp add: firsts_def)

lemma set_firsts: "set (firsts xs) = set xs"
  by (simp add: firsts_def)

lemma distinct_firsts: "distinct (firsts xs)"
  by (simp add: firsts_def)

lemma firsts_filter: "firsts (filter P xs) = filter P (firsts xs)"
  by (simp add: firsts_def rev_filter remdups_filter)

lemma map_of_keyed: "map_of (map (\<lambda>k. (k, g k)) ks) k = (if k \<in> set ks then Some (g k) else None)"
  by (induction ks) auto

lemma serviceMap_add_groups: "serviceMap_add (groups_of fs) f = groups_of (fs @ [f])"
proof (cases "service_baseName f \<in> set (map service_baseName fs)")
  case True
  then have has: "map_has (groups_of fs) (service_baseName f)"
    by (simp add: map_has_def groups_of_def set_firsts comp_def)
  from True have get: "map_get (groups_of fs) (service_baseName f)
      = Some (filter (\<lambda>g. service_baseName g = service_baseName f) fs)"
    by (simp add: map_get_def groups_of_def map_of_keyed set_firsts)
  from True have "firsts (map service_baseName (fs @ [f])) = firsts (map service_baseName fs)"
    by (simp add: firsts_snoc)
  then have "groups_of (fs @ [f]) =
      map (\<lambda>k. (k, filter (\<lambda>g. service_baseName g = k) (fs @ [f]))) (firsts (map service_baseName fs))"
    by (simp add: groups_of_def)
  with has get show ?thesis
    by (simp add: serviceMap_add_def Let_def map_set_def groups_of_def comp_def)
next
  case False
  then have has: "\<not> map_has (groups_of fs) (service_baseName f)"
    by (simp add: map_has_def groups_of_def set_firsts comp_def)
  let ?m1 = "groups_of fs @ [(service_baseName f, [])]"
  from False have nomap: "map_of (groups_of fs) (service_baseName f) = None"
    by (simp add: groups_of_def map_of_keyed set_firsts)
  then have get: "map_get ?m1 (service_baseName f) = Some []"
    by (simp add: map_get_def map_add_def)
  have has1: "map_has ?m1 (service_baseName f)"
    by (simp add: map_has_def)
  from False have none: "filter (\<lambda>g. service_baseName g = service_baseName f) fs = []"
    by (auto simp: filter_empty_conv image_iff)
  from False have keys: "\<forall>k \<in> set (firsts (map service_baseName fs)). k \<noteq> service_baseName f"
    by (auto simp: set_firsts image_iff)
  from False have "firsts (map service_baseName (fs @ [f])) = firsts (map service_baseName fs) @ [service_baseName f]"
    by (simp add: firsts_snoc)
  then have "groups_of (fs @ [f]) =
      map (\<lambda>k. (k, filter (\<lambda>g. service_baseName g = k) (fs @ [f]))) (firsts (map service_baseName fs))
      @ [(service_baseName f, [f])]"
    by (simp add: groups_of_def none)
  moreover have "map (\<lambda>k. (k, filter (\<lambda>g. service_baseName g = k) (fs @ [f]))) (firsts (map service_baseName fs))
      = groups_of fs"
    using keys by (auto simp: groups_of_def)
  moreover have "map (\<lambda>(k', v'). if k' = service_baseName f then (k', [f]) else (k', v')) (groups_of fs) = groups_of fs"
    using keys by (auto simp: groups_of_def intro!: map_idI)
  ultimately show ?thesis
    using has has1 get
    by (simp add: serviceMap_add_def Let_def map_set_def)
qed

lemma serviceMap_groups: "foldl serviceMap_add [] fs = groups_of fs"
proof (induction fs rule: rev_induct)
  case Nil
  show ?case by (simp add: groups_of_def firsts_def)
next
  case (snoc f fs)
  then show ?case by (simp add: serviceMap_add_groups)
qed

text \<open>What the loop over the groups adds to the store, group by group.\<close>

lemma duplicate_check_critical:
  "duplicate_check root grp i = i\<lparr>critical := critical i @ critical (duplicate_check root grp ISSUES_init)\<rparr>"
  by (simp add: duplicate_check_def Let_def ISSUES_init_def)

lemma duplicate_loop:
  "foldl (\<lambda>acc (baseName, grp). duplicate_check root grp acc) i m
   = i\<lparr>critical := critical i
         @ concat (map (\<lambda>(baseName, grp). critical (duplicate_check root grp ISSUES_init)) m)\<rparr>"
proof (induction m arbitrary: i)
  case Nil
  show ?case by simp
next
  case (Cons a m)
  obtain k g where a: "a = (k, g)" by (cases a)
  have "foldl (\<lambda>acc (baseName, grp). duplicate_check root grp acc) i (a # m)
      = foldl (\<lambda>acc (baseName, grp). duplicate_check root grp acc)
          (i\<lparr>critical := critical i @ critical (duplicate_check root g ISSUES_init)\<rparr>) m"
    unfolding a using duplicate_check_critical[of root g i] by simp
  then show ?case
    unfolding a by (simp add: Cons.IH)
qed

lemma duplicate_pair:
  "r1 \<noteq> r2 \<Longrightarrow> relative_to root p1 = r1 \<Longrightarrow> relative_to root p2 = r2 \<Longrightarrow>
   critical (duplicate_check root [p1, p2] ISSUES_init) =
     [\<lparr>file' = ''services/'', line = 0,
       message = ''Potential duplicate service files detected: '' @ r1 @ '', '' @ r2,
       code = ''Consider consolidating into a single service file''\<rparr>]"
  by (simp add: duplicate_check_def Let_def ISSUES_init_def)

lemma groups_without:
  "groups_of (filter (\<lambda>f. service_baseName f \<noteq> u) fs) = filter (\<lambda>(k, g). k \<noteq> u) (groups_of fs)"
proof -
  have "map service_baseName (filter (\<lambda>f. service_baseName f \<noteq> u) fs)
        = filter (\<lambda>k. k \<noteq> u) (map service_baseName fs)"
    by (simp add: filter_map comp_def)
  then have "groups_of (filter (\<lambda>f. service_baseName f \<noteq> u) fs) =
    map (\<lambda>k. (k, filter (\<lambda>f. service_baseName f = k) (filter (\<lambda>f. service_baseName f \<noteq> u) fs)))
        (filter (\<lambda>k. k \<noteq> u) (firsts (map service_baseName fs)))"
    by (simp add: groups_of_def firsts_filter)
  also have "\<dots> = map (\<lambda>k. (k, filter (\<lambda>f. service_baseName f = k) fs))
        (filter (\<lambda>k. k \<noteq> u) (firsts (map service_baseName fs)))"
    by (rule map_cong) (auto intro: filter_cong)
  also have "\<dots> = filter (\<lambda>(k, g). k \<noteq> u) (groups_of fs)"
    by (simp add: groups_of_def filter_map comp_def)
  finally show ?thesis .
qed


text \<open>The two file names of the example belong to one group, in whatever directory.\<close>

lemma includes_str_append: "includes_str b sub \<Longrightarrow> includes_str (a @ b) sub"
  by (induction a) simp_all

lemma split_acc_no_separator: "c \<notin> set b \<Longrightarrow> split_acc c cur b = [rev cur @ b]"
  by (induction b arbitrary: cur) auto

lemma split_acc_nonempty: "split_acc c cur s \<noteq> []"
  by (induction s arbitrary: cur) simp_all

lemma last_split_acc:
  "c \<notin> set b \<Longrightarrow> last (split_acc c cur (a @ c # b)) = b"
  by (induction a arbitrary: cur) (simp_all add: split_acc_no_separator split_acc_nonempty)

lemma last_split: "c \<notin> set b \<Longrightarrow> last (split (a @ c # b) c) = b"
  by (simp add: split_def last_split_acc)

lemma service_names:
  "is_service_file (dir @ ''/UserService.ts'')"
  "service_baseName (dir @ ''/UserService.ts'') = ''userservice''"
  "is_service_file (dir @ ''/userservice.js'')"
  "service_baseName (dir @ ''/userservice.js'') = ''userservice''"
proof -
  have a: "includes_str ''/UserService.ts'' ''Service.''" by code_simp
  have b: "includes_str ''/userservice.js'' ''service.''" by code_simp
  show "is_service_file (dir @ ''/UserService.ts'')"
    using includes_str_append[OF a, of dir] by (simp add: is_service_file_def)
  show "is_service_file (dir @ ''/userservice.js'')"
    using includes_str_append[OF b, of dir] by (simp add: is_service_file_def)
  have l1: "last (split (dir @ ''/UserService.ts'') CHR ''/'') = ''UserService.ts''"
    using last_split[of "CHR ''/''" "''UserService.ts''" dir] by simp
  have l2: "last (split (dir @ ''/userservice.js'') CHR ''/'') = ''userservice.js''"
    using last_split[of "CHR ''/''" "''userservice.js''" dir] by simp
  have e1: "service_baseName ''UserService.ts'' = ''userservice''" by code_simp
  have e2: "service_baseName ''userservice.js'' = ''userservice''" by code_simp
  have s1: "last (split ''UserService.ts'' CHR ''/'') = ''UserService.ts''" by code_simp
  have s2: "last (split ''userservice.js'' CHR ''/'') = ''userservice.js''" by code_simp
  from e1 show "service_baseName (dir @ ''/UserService.ts'') = ''userservice''"
    unfolding service_baseName_def l1 s1 .
  from e2 show "service_baseName (dir @ ''/userservice.js'') = ''userservice''"
    unfolding service_baseName_def l2 s2 .
qed

text \<open>
  C7. When the service-named files of base name \<^verbatim>\<open>userservice\<close> among the discovered files
  are exactly two, with different relative paths, as \<^verbatim>\<open>UserService.ts\<close> and
  \<^verbatim>\<open>userservice.js\<close> in two directories are (\<open>service_names\<close>), the duplicate detector
  adds exactly one critical finding for them, whose message lists both relative paths in
  discovery order. The other critical findings it adds are those it adds for the same file
  set without the two files, and no other bucket changes.
\<close>

theorem C7_duplicate_pair:
  assumes files: "getAllFiles (projectRoot e) (root_node e) [] = Inr files"
    and pair: "filter (\<lambda>f. is_service_file f \<and> service_baseName f = ''userservice'') files = [p1, p2]"
    and rel: "relative_to (projectRoot e) p1 \<noteq> relative_to (projectRoot e) p2"
  shows "\<exists>xs ys. checkForDuplicates e i = Inr (i\<lparr>critical := critical i @ xs @
            [\<lparr>file' = ''services/'', line = 0,
              message = ''Potential duplicate service files detected: ''
                        @ relative_to (projectRoot e) p1 @ '', '' @ relative_to (projectRoot e) p2,
              code = ''Consider consolidating into a single service file''\<rparr>] @ ys\<rparr>)
         \<and> xs @ ys = critical (duplicates_in (projectRoot e)
                (filter (\<lambda>f. \<not> (is_service_file f \<and> service_baseName f = ''userservice'')) files)
                ISSUES_init)"
proof -
  let ?root = "projectRoot e"
  let ?u = "''userservice''"
  let ?sf = "filter is_service_file files"
  let ?G = "\<lambda>k. (k, filter (\<lambda>f. service_baseName f = k) ?sf)"
  let ?D = "\<lambda>(baseName, grp). critical (duplicate_check ?root grp ISSUES_init)"
  let ?F = "\<lparr>file' = ''services/'', line = 0,
              message = ''Potential duplicate service files detected: ''
                        @ relative_to ?root p1 @ '', '' @ relative_to ?root p2,
              code = ''Consider consolidating into a single service file''\<rparr>"
  have grp: "filter (\<lambda>f. service_baseName f = ?u) ?sf = [p1, p2]"
    using pair by (simp add: conj_commute)
  then have "p1 \<in> set (filter (\<lambda>f. service_baseName f = ?u) ?sf)" by simp
  then have "p1 \<in> set ?sf \<and> service_baseName p1 = ?u" by simp
  then have "?u \<in> set (firsts (map service_baseName ?sf))"
    unfolding set_firsts set_map by (metis imageI)
  then obtain ks1 ks2 where ks: "firsts (map service_baseName ?sf) = ks1 @ ?u # ks2"
    by (auto dest: split_list)
  with distinct_firsts[of "map service_baseName ?sf"] have nu: "?u \<notin> set ks1" "?u \<notin> set ks2"
    by auto
  have m: "groups_of ?sf = map ?G ks1 @ [(?u, [p1, p2])] @ map ?G ks2"
    using pair by (simp add: groups_of_def ks)
  have "filter is_service_file (filter (\<lambda>f. \<not> (is_service_file f \<and> service_baseName f = ?u)) files)
        = filter (\<lambda>f. service_baseName f \<noteq> ?u) ?sf"
    by (induction files) auto
  then have "foldl serviceMap_add [] (filter is_service_file
          (filter (\<lambda>f. \<not> (is_service_file f \<and> service_baseName f = ?u)) files))
        = groups_of (filter (\<lambda>f. service_baseName f \<noteq> ?u) ?sf)"
    by (simp only: serviceMap_groups)
  also have "\<dots> = filter (\<lambda>(k, g). k \<noteq> ?u) (groups_of ?sf)"
    by (rule groups_without)
  also have "\<dots> = map ?G ks1 @ map ?G ks2"
  proof -
    from nu have "filter (\<lambda>k. k \<noteq> ?u) ks1 = ks1" "filter (\<lambda>k. k \<noteq> ?u) ks2 = ks2"
      by (auto simp: filter_id_conv)
    then show ?thesis
      by (simp add: m filter_map comp_def)
  qed
  finally have rest: "critical (duplicates_in ?root
        (filter (\<lambda>f. \<not> (is_service_file f \<and> service_baseName f = ?u)) files) ISSUES_init)
      = concat (map ?D (map ?G ks1)) @ concat (map ?D (map ?G ks2))"
    by (simp add: duplicates_in_def Let_def duplicate_loop ISSUES_init_def)
  have "duplicates_in ?root files i
      = i\<lparr>critical := critical i @ concat (map ?D (map ?G ks1)) @ [?F] @ concat (map ?D (map ?G ks2))\<rparr>"
    using duplicate_pair[OF rel refl refl]
    by (simp add: duplicates_in_def Let_def serviceMap_groups duplicate_loop m)
  with files rest show ?thesis
    by (intro exI[of _ "concat (map ?D (map ?G ks1))"] exI[of _ "concat (map ?D (map ?G ks2))"])
       (simp add: checkForDuplicates_def)
qed

theorem C7_duplicate_pair_witness:
  "getAllFiles (projectRoot services_env) (root_node services_env) []
     = Inr [''/p/api/UserService.ts'', ''/p/api/OrderService.ts'', ''/p/legacy/userservice.js'']
   \<and> filter (\<lambda>f. is_service_file f \<and> service_baseName f = ''userservice'')
         [''/p/api/UserService.ts'', ''/p/api/OrderService.ts'', ''/p/legacy/userservice.js'']
       = [''/p/api/UserService.ts'', ''/p/legacy/userservice.js'']
   \<and> checkForDuplicates services_env ISSUES_init = Inr (ISSUES_init\<lparr>critical :=
         [\<lparr>file' = ''services/'', line = 0,
           message = ''Potential duplicate service files detected: api/UserService.ts, legacy/userservice.js'',
           code = ''Consider consolidating into a single service file''\<rparr>]\<rparr>)"
proof -
  have g: "getAllFiles (projectRoot services_env) (root_node services_env) []
     = Inr [''/p/api/UserService.ts'', ''/p/api/OrderService.ts'', ''/p/legacy/userservice.js'']"
    by code_simp
  have f: "filter (\<lambda>f. is_service_file f \<and> service_baseName f = ''userservice'')
         [''/p/api/UserService.ts'', ''/p/api/OrderService.ts'', ''/p/legacy/userservice.js'']
       = [''/p/api/UserService.ts'', ''/p/legacy/userservice.js'']"
    by code_simp
  have r1: "relative_to (projectRoot services_env) ''/p/api/UserService.ts'' = ''api/UserService.ts''"
    and r2: "relative_to (projectRoot services_env) ''/p/legacy/userservice.js'' = ''legacy/userservice.js''"
    by (simp_all add: relative_to_def services_env_def)
  have ne: "relative_to (projectRoot services_env) ''/p/api/UserService.ts''
        \<noteq> relative_to (projectRoot services_env) ''/p/legacy/userservice.js''"
    unfolding r1 r2 by simp
  have other: "critical (duplicates_in (projectRoot services_env)
       (filter (\<lambda>f. \<not> (is_service_file f \<and> service_baseName f = ''userservice''))
          [''/p/api/UserService.ts'', ''/p/api/OrderService.ts'', ''/p/legacy/userservice.js''])
       ISSUES_init) = []"
    by code_simp
  from C7_duplicate_pair[OF g f ne, of ISSUES_init] g f show ?thesis
    unfolding other r1 r2 by (auto simp: ISSUES_init_def)
qed

section \<open>Exit status\<close>

text \<open>
  C1. For every issue store handed to the reporter, the exit status is 1 when the critical
  and high buckets together hold at least one finding and 0 otherwise; the medium, low and
  info buckets have no influence.
\<close>

theorem C1_exit_status:
  "exit_status (generateReport root i) =
     (if 0 < length (critical i) + length (high i) then 1 else 0)"
  by (cases "critical i"; cases "high i"; cases "medium i"; cases "low i")
     (simp_all add: generateReport_def report_verdict_def)

text \<open>
  C10. Info findings never affect the verdict: replacing the info bucket changes neither the
  per-severity listing nor the exit status, and a store whose critical, high, medium and low
  buckets are empty is reported as a clean pass with exit status 0 and an empty listing,
  whatever the info bucket holds.
\<close>

theorem C10_info_ignored:
  "report_listing (i\<lparr>info := fs\<rparr>) = report_listing i
   \<and> exit_status (generateReport root (i\<lparr>info := fs\<rparr>)) = exit_status (generateReport root i)
   \<and> (critical i = [] \<and> high i = [] \<and> medium i = [] \<and> low i = [] \<longrightarrow>
        report_verdict i = Passed
        \<and> report_listing i = []
        \<and> generateReport root i =
            \<lparr>printed = report_header root i
                       @ [[CHR 0x0A] @ rule80 CHR ''='', icon_passed @ '' QUALITY CHECK PASSED''],
             exit_status = 0\<rparr>)"
  by (simp add: generateReport_def report_verdict_def report_listing_def print_bucket_def)

theorem C10_info_ignored_witness:
  "report_verdict (ISSUES_init\<lparr>info := [\<lparr>file' = ''package.json'', line = 0,
        message = ''No package.json found. This may not be a Node.js project.'', code = ''''\<rparr>]\<rparr>) = Passed
   \<and> exit_status (generateReport ''/p'' (ISSUES_init\<lparr>info := [\<lparr>file' = ''package.json'', line = 0,
        message = ''No package.json found. This may not be a Node.js project.'', code = ''''\<rparr>]\<rparr>)) = 0"
  using C10_info_ignored [where i = "ISSUES_init\<lparr>info := [\<lparr>file' = ''package.json'', line = 0,
        message = ''No package.json found. This may not be a Node.js project.'', code = ''''\<rparr>]\<rparr>"
        and fs = "[]" and root = "''/p''"]
  by (simp add: ISSUES_init_def)

end
